theory Spec2Isabelle
  imports Main
begin

section \<open>The rpm keyring helpers of libdnf (src/libdnf/dnf-keyring.cpp)\<close>

text \<open>
  The three functions of \<^verbatim>\<open>dnf-keyring.cpp\<close> are a control layer over glib and librpm.
  Neither library is part of the repository, so every library call is a field of the
  record \<open>rpm_env\<close> below: the model is the code of the repository, and what is proved
  of it holds for every behaviour of the libraries. Opaque handles are type parameters:
  \<open>'kr\<close> the contents of an \<^verbatim>\<open>rpmKeyring\<close>, \<open>'key\<close> an \<^verbatim>\<open>rpmPubkey\<close>, \<open>'dig\<close> a
  \<^verbatim>\<open>pgpDig\<close>, \<open>'hdr\<close> a \<^verbatim>\<open>Header\<close>, \<open>'fd\<close> an \<^verbatim>\<open>FD_t\<close>.

  Each function body is a function-try-block closed by \<^verbatim>\<open>CATCH_TO_GERROR(FALSE)\<close>. The
  bodies call C functions of glib and librpm only, and those raise no C++ exception: the
  handler is never entered and has no counterpart here.
\<close>

subsection \<open>Values of the C interfaces\<close>

type_synonym filename = string

text \<open>A packet buffer: \<^verbatim>\<open>uint8_t *\<close> together with its length.\<close>
type_synonym bytes = "nat list"

text \<open>A \<^verbatim>\<open>GError\<close>: domain, code and message. The codes are kept symbolic.\<close>

datatype gerror_domain = G_FILE_ERROR | DNF_ERROR | Other_domain nat

datatype gerror_code =
    G_FILE_ERROR_NOENT
  | DNF_ERROR_GPG_SIGNATURE_INVALID
  | DNF_ERROR_FILE_INVALID
  | DNF_ERROR_INTERNAL_ERROR
  | Other_code int

record gerror =
  domain :: gerror_domain
  code :: gerror_code
  message :: string

text \<open>\<^verbatim>\<open>g_set_error(error, DNF_ERROR, code, fmt, ...)\<close> with the message already formatted.\<close>

definition g_set_error :: "gerror_code \<Rightarrow> string \<Rightarrow> gerror" where
  "g_set_error c msg = \<lparr>domain = DNF_ERROR, code = c, message = msg\<rparr>"

text \<open>
  What a \<^verbatim>\<open>gboolean f(..., GError **error)\<close> hands back: the returned flag and the error
  stored through \<^verbatim>\<open>error\<close> (\<open>None\<close> when nothing was stored).
\<close>

type_synonym gresult = "bool \<times> gerror option"

text \<open>
  librpm's return codes are C integers. The values are those of librpm's public headers:
  \<^verbatim>\<open>enum rpmRC { RPMRC_OK = 0, RPMRC_NOTFOUND = 1, RPMRC_FAIL = 2, ... }\<close> and
  \<^verbatim>\<open>enum pgpArmor { ..., PGPARMOR_NONE = 0, PGPARMOR_MESSAGE = 1, PGPARMOR_PUBKEY = 2, ... }\<close>
  (the error values of \<^verbatim>\<open>pgpArmor\<close> are negative).
\<close>

definition RPMRC_OK :: int where "RPMRC_OK = 0"
definition RPMRC_NOTFOUND :: int where "RPMRC_NOTFOUND = 1"
definition PGPARMOR_PUBKEY :: int where "PGPARMOR_PUBKEY = 2"

datatype rpmTag = RPMTAG_RSAHEADER | RPMTAG_DSAHEADER

subsection \<open>The library calls\<close>

text \<open>
  Each field is one library function, with its out-parameters made results.
  \<^item> \<open>g_dir_open\<close> gives the error or the names that successive \<^verbatim>\<open>g_dir_read_name\<close>
    calls return before \<^verbatim>\<open>NULL\<close>.
  \<^item> \<open>pgpParsePkts data\<close> gives the armor type and the packet buffer (\<^verbatim>\<open>pkt\<close>, \<^verbatim>\<open>len\<close>).
  \<^item> \<open>rpmPubkeyNew\<close> gives \<open>None\<close> for \<^verbatim>\<open>NULL\<close>.
  \<^item> \<open>rpmKeyringAddKey kr key\<close> gives the return code and the keyring as the call left it.
  \<^item> \<open>rpmGetSubkeys\<close> gives the array \<^verbatim>\<open>subkeys[0..nsubkeys-1]\<close>.
  \<^item> \<open>Fopen\<close> gives \<open>None\<close> for \<^verbatim>\<open>NULL\<close>; \<open>Ferror\<close> says whether the flag is non-zero.
  \<^item> \<open>rpmtsSetKeyring kr\<close> is the return code of attaching \<open>kr\<close> to a fresh transaction set.
  \<^item> \<open>rpmcliVerifySignatures kr filename\<close> gives the return code and the messages of the
    log records the call emits through rpmlog, in order.
  \<^item> \<open>rpmReadPackageFile kr fd filename\<close> gives the return code and the header.
  \<^item> \<open>headerGet hdr tag\<close> gives the return code (librpm: 1 on success, 0 on failure) and
    the data the call leaves in \<^verbatim>\<open>td\<close>.
  \<^item> \<open>pgpPrtPkts data\<close> gives the return code and the digest it fills.
\<close>

record ('kr, 'key, 'dig, 'hdr, 'fd) rpm_env =
  g_file_test_is_regular :: "filename \<Rightarrow> bool"
  g_file_test_is_symlink :: "filename \<Rightarrow> bool"
  g_file_get_contents :: "filename \<Rightarrow> gerror + string"
  g_dir_open :: "filename \<Rightarrow> gerror + filename list"
  g_build_filename :: "filename \<Rightarrow> filename \<Rightarrow> filename"
  g_path_get_basename :: "filename \<Rightarrow> string"
  pgpParsePkts :: "string \<Rightarrow> int \<times> bytes"
  rpmPubkeyNew :: "bytes \<Rightarrow> 'key option"
  rpmPubkeyDig :: "'key \<Rightarrow> 'dig"
  rpmKeyringLookup :: "'kr \<Rightarrow> 'dig \<Rightarrow> int"
  rpmKeyringAddKey :: "'kr \<Rightarrow> 'key \<Rightarrow> int \<times> 'kr"
  rpmGetSubkeys :: "'key \<Rightarrow> 'key list"
  Fopen :: "filename \<Rightarrow> 'fd option"
  Ferror :: "'fd \<Rightarrow> bool"
  Fstrerror :: "'fd \<Rightarrow> string"
  rpmtsSetKeyring :: "'kr \<Rightarrow> int"
  rpmcliVerifySignatures :: "'kr \<Rightarrow> filename \<Rightarrow> int \<times> string list"
  rpmReadPackageFile :: "'kr \<Rightarrow> 'fd \<Rightarrow> filename \<Rightarrow> int \<times> 'hdr"
  headerConvert :: "'hdr \<Rightarrow> 'hdr"
  headerGet :: "'hdr \<Rightarrow> rpmTag \<Rightarrow> int \<times> bytes"
  pgpPrtPkts :: "bytes \<Rightarrow> int \<times> 'dig"

subsection \<open>The state the functions change\<close>

text \<open>
  The keyring is mutated in place by \<^verbatim>\<open>rpmKeyringAddKey\<close>; the rpmlog callback is
  process-wide; the trace records, in order, the calls whose occurrence matters:
  reading a file, adding a key, and the glib log lines.
\<close>

datatype 'key event =
    Ev_file_read filename
  | Ev_keyring_add 'key
  | Ev_warning string
  | Ev_debug string

datatype rpmlog_cb = Rpmcliverifysignatures_log_handler_cb | Foreign_cb nat

record ('kr, 'key) world =
  keyring :: 'kr
  trace :: "'key event list"
  rpmlog_callback :: "rpmlog_cb option"

definition emit :: "'key event \<Rightarrow> ('kr, 'key) world \<Rightarrow> ('kr, 'key) world" where
  "emit ev w = w\<lparr>trace := trace w @ [ev]\<rparr>"

text \<open>One call of \<^verbatim>\<open>rpmKeyringAddKey(keyring, key)\<close>: the return code and the new state.\<close>

definition keyring_add ::
  "('kr, 'key, 'dig, 'hdr, 'fd) rpm_env \<Rightarrow> 'key \<Rightarrow> ('kr, 'key) world \<Rightarrow> int \<times> ('kr, 'key) world"
where
  "keyring_add E key w =
     (case rpmKeyringAddKey E (keyring w) key of
        (rc, kr') \<Rightarrow> (rc, emit (Ev_keyring_add key) (w\<lparr>keyring := kr'\<rparr>)))"

subsection \<open>dnf\_keyring\_add\_public\_key\<close>

text \<open>
  The loop over \<^verbatim>\<open>subkeys\<close> (lines 145-156): \<open>Some e\<close> is the \<^verbatim>\<open>goto out\<close> with the
  error set, \<open>None\<close> is the loop running to its end.
\<close>

fun add_subkeys ::
  "('kr, 'key, 'dig, 'hdr, 'fd) rpm_env \<Rightarrow> filename \<Rightarrow> 'key list \<Rightarrow> ('kr, 'key) world
     \<Rightarrow> gerror option \<times> ('kr, 'key) world"
where
  "add_subkeys E filename [] w = (None, w)"
| "add_subkeys E filename (subkey # rest) w =
     (case keyring_add E subkey w of
        (rc, w') \<Rightarrow>
          if rc < 0 then
            (Some (g_set_error DNF_ERROR_GPG_SIGNATURE_INVALID
                     (''failed to add subkeys for '' @ filename @ '' to rpmdb'')), w')
          else add_subkeys E filename rest w')"

definition dnf_keyring_add_public_key ::
  "('kr, 'key, 'dig, 'hdr, 'fd) rpm_env \<Rightarrow> filename \<Rightarrow> ('kr, 'key) world
     \<Rightarrow> gresult \<times> ('kr, 'key) world"
where
  "dnf_keyring_add_public_key E filename w =
     (if \<not> g_file_test_is_regular E filename then ((True, None), w)
      else if g_file_test_is_symlink E filename then ((True, None), w)
      else
        let w1 = emit (Ev_file_read filename) w in
        case g_file_get_contents E filename of
          Inl err \<Rightarrow> ((False, Some err), w1)
        | Inr data \<Rightarrow>
            (case pgpParsePkts E data of
               (armor, pkt) \<Rightarrow>
                 if armor < 0 then
                   ((False, Some (g_set_error DNF_ERROR_GPG_SIGNATURE_INVALID
                                    (''failed to parse PKI file '' @ filename))), w1)
                 else if armor \<noteq> PGPARMOR_PUBKEY then
                   ((False, Some (g_set_error DNF_ERROR_GPG_SIGNATURE_INVALID
                                    (''PKI file '' @ filename @ '' is not a public key''))), w1)
                 else
                   (case rpmPubkeyNew E pkt of
                      None \<Rightarrow>
                        ((False, Some (g_set_error DNF_ERROR_GPG_SIGNATURE_INVALID
                                         (''failed to parse public key for '' @ filename))), w1)
                    | Some pubkey \<Rightarrow>
                        if rpmKeyringLookup E (keyring w1) (rpmPubkeyDig E pubkey) = RPMRC_OK then
                          ((True, None), emit (Ev_debug (filename @ '' is already present'')) w1)
                        else
                          (case keyring_add E pubkey w1 of
                             (rc, w2) \<Rightarrow>
                               if rc = 1 then
                                 ((True, None),
                                  emit (Ev_debug (filename @ '' is already added'')) w2)
                               else if rc < 0 then
                                 ((False,
                                   Some (g_set_error DNF_ERROR_GPG_SIGNATURE_INVALID
                                           (''failed to add public key '' @ filename
                                              @ '' to rpmdb''))), w2)
                               else
                                 (case add_subkeys E filename (rpmGetSubkeys E pubkey) w2 of
                                    (Some e, w3) \<Rightarrow> ((False, Some e), w3)
                                  | (None, w3) \<Rightarrow>
                                      ((True, None),
                                       emit (Ev_debug (''added missing public key '' @ filename
                                                         @ '' to rpmdb'')) w3))))))"

subsection \<open>dnf\_keyring\_add\_public\_keys\<close>

definition gpg_dir :: filename where
  "gpg_dir = ''/etc/pki/rpm-gpg''"

text \<open>
  The \<^verbatim>\<open>do ... while (true)\<close> loop (lines 205-218) over the names that
  \<^verbatim>\<open>g_dir_read_name\<close> returns. The body reads \<^verbatim>\<open>localError->message\<close> after a failed
  import; were \<^verbatim>\<open>localError\<close> still \<^verbatim>\<open>NULL\<close> there, the program would dereference a null
  pointer: that outcome is \<open>None\<close>.
\<close>

fun add_public_keys_loop ::
  "('kr, 'key, 'dig, 'hdr, 'fd) rpm_env \<Rightarrow> filename list \<Rightarrow> ('kr, 'key) world
     \<Rightarrow> ('kr, 'key) world option"
where
  "add_public_keys_loop E [] w = Some w"
| "add_public_keys_loop E (filename # rest) w =
     (case dnf_keyring_add_public_key E (g_build_filename E gpg_dir filename) w of
        ((ret, localError), w') \<Rightarrow>
          if \<not> ret then
            (case localError of
               None \<Rightarrow> None
             | Some e \<Rightarrow> add_public_keys_loop E rest (emit (Ev_warning (message e)) w'))
          else add_public_keys_loop E rest w')"

definition dnf_keyring_add_public_keys ::
  "('kr, 'key, 'dig, 'hdr, 'fd) rpm_env \<Rightarrow> ('kr, 'key) world
     \<Rightarrow> (gresult \<times> ('kr, 'key) world) option"
where
  "dnf_keyring_add_public_keys E w =
     (case g_dir_open E gpg_dir of
        Inl localError \<Rightarrow>
          Some ((True, None),
                (if domain localError \<noteq> G_FILE_ERROR \<or> code localError \<noteq> G_FILE_ERROR_NOENT
                 then emit (Ev_warning (message localError)) w
                 else w))
      | Inr names \<Rightarrow>
          (case add_public_keys_loop E names w of
             None \<Rightarrow> None
           | Some w' \<Rightarrow> Some ((True, None), w')))"

subsection \<open>The log handler\<close>

definition newline :: char where
  "newline = CHR 0x0A"

text \<open>
  \<^verbatim>\<open>rpmcliverifysignatures_log_handler_cb\<close> (lines 222-240). The argument \<open>string\<close> is
  \<^verbatim>\<open>*data\<close>, the \<^verbatim>\<open>GString *\<close> of the caller (\<open>None\<close> for \<^verbatim>\<open>NULL\<close>); the result is its
  value after the call. \<^verbatim>\<open>g_string_truncate(s, s->len - 1)\<close> drops the last character.
\<close>

definition rpmcliverifysignatures_log_handler_cb :: "string \<Rightarrow> string option \<Rightarrow> string option" where
  "rpmcliverifysignatures_log_handler_cb rec_message string =
     (let s0 = (case string of None \<Rightarrow> [] | Some s \<Rightarrow> s);
          s1 = (if length s0 > 0 then s0 @ '': '' else s0);
          s2 = s1 @ rec_message;
          s3 = (if length s2 > 0 then take (length s2 - 1) s2 else s2)
      in Some s3)"

text \<open>
  rpmlog hands each record emitted during a library call to the callback that is
  installed at that time; with another callback, or none, \<^verbatim>\<open>rpm_error\<close> is not touched.
\<close>

definition rpmlog_dispatch :: "rpmlog_cb option \<Rightarrow> string list \<Rightarrow> string option \<Rightarrow> string option" where
  "rpmlog_dispatch cb recs rpm_error =
     (case cb of
        Some Rpmcliverifysignatures_log_handler_cb \<Rightarrow>
          fold rpmcliverifysignatures_log_handler_cb recs rpm_error
      | _ \<Rightarrow> rpm_error)"

subsection \<open>dnf\_keyring\_check\_untrusted\_file\<close>

text \<open>
  Lines 321-326: read the RSA header signature into \<^verbatim>\<open>td\<close>, then the DSA one when the
  first return code is not \<^verbatim>\<open>RPMRC_NOTFOUND\<close>. \<^verbatim>\<open>headerGet\<close> returns an \<^verbatim>\<open>int\<close>, 1 when the
  tag was found and 0 when it was not, and the code casts it to \<^verbatim>\<open>rpmRC\<close>: the value 1 of
  a found tag is the value of \<^verbatim>\<open>RPMRC_NOTFOUND\<close>, so the test \<^verbatim>\<open>rc != RPMRC_NOTFOUND\<close> holds
  when the tag is absent.
\<close>

definition get_signature_header ::
  "('kr, 'key, 'dig, 'hdr, 'fd) rpm_env \<Rightarrow> 'hdr \<Rightarrow> int \<times> bytes"
where
  "get_signature_header E hdr =
     (case headerGet E hdr RPMTAG_RSAHEADER of
        (rc, td) \<Rightarrow>
          if rc \<noteq> RPMRC_NOTFOUND then headerGet E hdr RPMTAG_DSAHEADER
          else (rc, td))"

text \<open>The label \<^verbatim>\<open>out:\<close> (lines 365-382); releasing the handles changes nothing modelled.\<close>

definition out :: "gresult \<Rightarrow> ('kr, 'key) world \<Rightarrow> gresult \<times> ('kr, 'key) world" where
  "out res w = (res, w\<lparr>rpmlog_callback := None\<rparr>)"

definition dnf_keyring_check_untrusted_file ::
  "('kr, 'key, 'dig, 'hdr, 'fd) rpm_env \<Rightarrow> filename \<Rightarrow> ('kr, 'key) world
     \<Rightarrow> gresult \<times> ('kr, 'key) world"
where
  "dnf_keyring_check_untrusted_file E filename w =
     (case Fopen E filename of
        None \<Rightarrow>
          out (False, Some (g_set_error DNF_ERROR_FILE_INVALID (''failed to open '' @ filename))) w
      | Some fd \<Rightarrow>
          if Ferror E fd then
            out (False, Some (g_set_error DNF_ERROR_FILE_INVALID
                                (''failed to open '' @ filename @ '': '' @ Fstrerror E fd))) w
          else if rpmtsSetKeyring E (keyring w) < 0 then
            out (False, Some (g_set_error DNF_ERROR_INTERNAL_ERROR ''failed to set keyring'')) w
          else
            let w1 = w\<lparr>rpmlog_callback := Some Rpmcliverifysignatures_log_handler_cb\<rparr> in
            case rpmcliVerifySignatures E (keyring w1) filename of
              (vrc, recs) \<Rightarrow>
                let rpm_error = rpmlog_dispatch (rpmlog_callback w1) recs None in
                if vrc \<noteq> 0 then
                  out (False,
                       Some (g_set_error DNF_ERROR_GPG_SIGNATURE_INVALID
                               (filename @ '' could not be verified.'' @ [newline]
                                  @ (case rpm_error of
                                       Some s \<Rightarrow> s
                                     | None \<Rightarrow> ''UNKNOWN ERROR'')))) w1
                else
                  (case rpmReadPackageFile E (keyring w1) fd filename of
                     (rc, hdr0) \<Rightarrow>
                       if rc \<noteq> RPMRC_OK then
                         out (False, Some (g_set_error DNF_ERROR_FILE_INVALID
                                             (filename @ '' could not be verified''))) w1
                       else
                         (case get_signature_header E (headerConvert E hdr0) of
                            (rc, td) \<Rightarrow>
                              if rc \<noteq> RPMRC_NOTFOUND then
                                out (False,
                                     Some (g_set_error DNF_ERROR_GPG_SIGNATURE_INVALID
                                             (''package not signed: ''
                                                @ g_path_get_basename E filename))) w1
                              else
                                (case pgpPrtPkts E td of
                                   (rc, dig) \<Rightarrow>
                                     if rc \<noteq> RPMRC_OK then
                                       out (False,
                                            Some (g_set_error DNF_ERROR_FILE_INVALID
                                                    (''failed to parse digest header for ''
                                                       @ filename))) w1
                                     else if rpmKeyringLookup E (keyring w1) dig \<noteq> RPMRC_OK then
                                       out (False,
                                            Some (g_set_error DNF_ERROR_GPG_SIGNATURE_INVALID
                                                    (''failed to lookup digest in keyring for ''
                                                       @ filename))) w1
                                     else
                                       out (True, None)
                                         (emit (Ev_debug (filename
                                                   @ '' has been verified as trusted'')) w1)))))"

subsection \<open>Notions used to state the properties\<close>

text \<open>The keyring after \<^verbatim>\<open>rpmKeyringAddKey\<close> was called for each key of a list, in order.\<close>

definition keyring_after ::
  "('kr, 'key, 'dig, 'hdr, 'fd) rpm_env \<Rightarrow> 'key list \<Rightarrow> 'kr \<Rightarrow> 'kr"
where
  "keyring_after E ks kr = fold (\<lambda>k kr'. snd (rpmKeyringAddKey E kr' k)) ks kr"

text \<open>Every one of these successive calls reports a non-negative code.\<close>

fun adds_ok :: "('kr, 'key, 'dig, 'hdr, 'fd) rpm_env \<Rightarrow> 'key list \<Rightarrow> 'kr \<Rightarrow> bool" where
  "adds_ok E [] kr = True"
| "adds_ok E (k # ks) kr =
     (case rpmKeyringAddKey E kr k of (rc, kr') \<Rightarrow> 0 \<le> rc \<and> adds_ok E ks kr')"

text \<open>
  \<open>n\<close> successive calls of \<^verbatim>\<open>dnf_keyring_add_public_key\<close> on the same file: the results in
  order and the final state.
\<close>

fun import_times ::
  "('kr, 'key, 'dig, 'hdr, 'fd) rpm_env \<Rightarrow> filename \<Rightarrow> nat \<Rightarrow> ('kr, 'key) world
     \<Rightarrow> gresult list \<times> ('kr, 'key) world"
where
  "import_times E filename 0 w = ([], w)"
| "import_times E filename (Suc n) w =
     (case dnf_keyring_add_public_key E filename w of
        (r, w') \<Rightarrow>
          (case import_times E filename n w' of (rs, w'') \<Rightarrow> (r # rs, w'')))"

text \<open>The keys for which a trace records a call of \<^verbatim>\<open>rpmKeyringAddKey\<close>, in order.\<close>

fun key_adds :: "'key event list \<Rightarrow> 'key list" where
  "key_adds [] = []"
| "key_adds (Ev_keyring_add k # evs) = k # key_adds evs"
| "key_adds (ev # evs) = key_adds evs"




subsection \<open>A concrete library for running the functions\<close>

text \<open>
  A small instance of the library calls. The keyring is the list of the key ids it holds;
  a key is its id and so is a digest; a header is its RSA and DSA signature fields; the
  subkey 12 cannot be added. The trust directory holds a public key file and a file that
  is not armored data.
\<close>

definition demo_env :: "(nat list, nat, nat, bytes option \<times> bytes option, nat) rpm_env" where
  "demo_env =
     \<lparr> g_file_test_is_regular =
         (\<lambda>f. f = ''/etc/pki/rpm-gpg/good.gpg'' \<or> f = ''/etc/pki/rpm-gpg/bad.gpg''
               \<or> f = ''/etc/pki/rpm-gpg/sig.asc'' \<or> f = ''/etc/pki/rpm-gpg/link''),
       g_file_test_is_symlink = (\<lambda>f. f = ''/etc/pki/rpm-gpg/link''),
       g_file_get_contents =
         (\<lambda>f. if f = ''/etc/pki/rpm-gpg/good.gpg'' then Inr ''PUBLIC KEY''
               else if f = ''/etc/pki/rpm-gpg/sig.asc'' then Inr ''SIGNATURE''
               else Inr ''garbage''),
       g_dir_open =
         (\<lambda>d. if d = ''/etc/pki/rpm-gpg'' then Inr [''bad.gpg'', ''good.gpg'']
               else Inl \<lparr>domain = G_FILE_ERROR, code = G_FILE_ERROR_NOENT,
                         message = ''No such file or directory''\<rparr>),
       g_build_filename = (\<lambda>d f. d @ ''/'' @ f),
       g_path_get_basename = (\<lambda>f. rev (takeWhile (\<lambda>c. c \<noteq> CHR ''/'') (rev f))),
       pgpParsePkts =
         (\<lambda>data. if data = ''PUBLIC KEY'' then (2, [1])
                  else if data = ''SIGNATURE'' then (3, [2])
                  else (- 1, [])),
       rpmPubkeyNew = (\<lambda>pkt. case pkt of [k] \<Rightarrow> Some k | _ \<Rightarrow> None),
       rpmPubkeyDig = (\<lambda>k. k),
       rpmKeyringLookup = (\<lambda>kr d. if d \<in> set kr then 0 else 4),
       rpmKeyringAddKey =
         (\<lambda>kr k. if k = 12 then (- 1, kr)
                  else if k \<in> set kr then (1, kr)
                  else (0, kr @ [k])),
       rpmGetSubkeys = (\<lambda>k. if k = 1 then [11, 12, 13] else []),
       Fopen = (\<lambda>f. if f = ''pkg.rpm'' then Some 3 else None),
       Ferror = (\<lambda>fd. False),
       Fstrerror = (\<lambda>fd. []),
       rpmtsSetKeyring = (\<lambda>kr. 0),
       rpmcliVerifySignatures = (\<lambda>kr f. (0, [])),
       rpmReadPackageFile = (\<lambda>kr fd f. (0, (Some [1], None))),
       headerConvert = (\<lambda>h. h),
       headerGet =
         (\<lambda>h tag. case (case tag of RPMTAG_RSAHEADER \<Rightarrow> fst h | RPMTAG_DSAHEADER \<Rightarrow> snd h) of
                     None \<Rightarrow> (0, [])
                   | Some d \<Rightarrow> (1, d)),
       pgpPrtPkts = (\<lambda>d. case d of [k] \<Rightarrow> (0, k) | _ \<Rightarrow> (- 1, 0)) \<rparr>"

text \<open>
  The same library where the chain check returns \<open>vrc\<close> after logging \<open>recs\<close>, and the
  package read has the header \<open>hdr\<close>.
\<close>

definition demo_env_with ::
  "int \<Rightarrow> string list \<Rightarrow> bytes option \<times> bytes option
     \<Rightarrow> (nat list, nat, nat, bytes option \<times> bytes option, nat) rpm_env"
where
  "demo_env_with vrc recs hdr =
     demo_env\<lparr> rpmcliVerifySignatures := \<lambda>kr f. (vrc, recs),
               rpmReadPackageFile := \<lambda>kr fd f. (0, hdr) \<rparr>"

definition demo_world :: "nat list \<Rightarrow> (nat list, nat) world" where
  "demo_world kr = \<lparr>keyring = kr, trace = [], rpmlog_callback = None\<rparr>"

section \<open>Properties of dnf\_keyring\_add\_public\_key\<close>

subsection \<open>Auxiliary facts\<close>

lemma key_adds_append: "key_adds (xs @ ys) = key_adds xs @ key_adds ys"
  by (induction xs rule: key_adds.induct) simp_all

lemma keyring_after_append:
  "keyring_after E (xs @ ys) kr = keyring_after E ys (keyring_after E xs kr)"
  by (simp add: keyring_after_def)

lemma keyring_after_Cons:
  "keyring_after E (k # ks) kr = keyring_after E ks (snd (rpmKeyringAddKey E kr k))"
  by (simp add: keyring_after_def)

lemma keyring_after_Nil: "keyring_after E [] kr = kr"
  by (simp add: keyring_after_def)

lemma keyring_after_stable:
  assumes "\<And>kr k. P kr \<Longrightarrow> P (snd (rpmKeyringAddKey E kr k))"
    and "P kr"
  shows "P (keyring_after E ks kr)"
  using assms(2)
proof (induction ks arbitrary: kr)
  case Nil
  then show ?case by (simp add: keyring_after_Nil)
next
  case (Cons k ks)
  have "P (snd (rpmKeyringAddKey E kr k))"
    using assms(1) Cons.prems by blast
  from Cons.IH [OF this] show ?case
    by (simp add: keyring_after_Cons)
qed

lemma add_subkeys_first_failure:
  assumes "adds_ok E pre (keyring w)"
    and "fst (rpmKeyringAddKey E (keyring_after E pre (keyring w)) bad) < 0"
  shows "add_subkeys E filename (pre @ bad # post) w =
           (Some (g_set_error DNF_ERROR_GPG_SIGNATURE_INVALID
                    (''failed to add subkeys for '' @ filename @ '' to rpmdb'')),
            w\<lparr>keyring := keyring_after E (pre @ [bad]) (keyring w),
              trace := trace w @ map Ev_keyring_add (pre @ [bad])\<rparr>)"
  using assms
proof (induction pre arbitrary: w)
  case Nil
  then show ?case
    by (auto simp: keyring_add_def emit_def keyring_after_def split: prod.splits)
next
  case (Cons k pre)
  obtain rc kr' where add: "rpmKeyringAddKey E (keyring w) k = (rc, kr')"
    by (cases "rpmKeyringAddKey E (keyring w) k")
  let ?w' = "emit (Ev_keyring_add k) (w\<lparr>keyring := kr'\<rparr>)"
  have rc: "0 \<le> rc" and ok: "adds_ok E pre kr'"
    using Cons.prems(1) add by simp_all
  have kr: "keyring ?w' = kr'"
    by (simp add: emit_def)
  have bad: "fst (rpmKeyringAddKey E (keyring_after E pre (keyring ?w')) bad) < 0"
    using Cons.prems(2) add by (simp add: kr keyring_after_Cons)
  have "add_subkeys E filename ((k # pre) @ bad # post) w
          = add_subkeys E filename (pre @ bad # post) ?w'"
    using add rc by (simp add: keyring_add_def)
  also have "\<dots> = (Some (g_set_error DNF_ERROR_GPG_SIGNATURE_INVALID
                    (''failed to add subkeys for '' @ filename @ '' to rpmdb'')),
            ?w'\<lparr>keyring := keyring_after E (pre @ [bad]) (keyring ?w'),
              trace := trace ?w' @ map Ev_keyring_add (pre @ [bad])\<rparr>)"
    using Cons.IH [of ?w'] ok bad by (simp add: kr)
  finally show ?case
    using add by (simp add: emit_def keyring_after_Cons)
qed

lemma add_public_key_already_present:
  assumes "g_file_test_is_regular E filename"
    and "\<not> g_file_test_is_symlink E filename"
    and "g_file_get_contents E filename = Inr data"
    and "pgpParsePkts E data = (PGPARMOR_PUBKEY, pkt)"
    and "rpmPubkeyNew E pkt = Some pubkey"
    and "rpmKeyringLookup E (keyring w) (rpmPubkeyDig E pubkey) = RPMRC_OK"
  shows "dnf_keyring_add_public_key E filename w =
           ((True, None),
            emit (Ev_debug (filename @ '' is already present'')) (emit (Ev_file_read filename) w))"
  using assms
  by (simp add: dnf_keyring_add_public_key_def Let_def emit_def PGPARMOR_PUBKEY_def)

subsection \<open>The claims\<close>

text \<open>
  Claim C8. For a path that is not a regular file, or that is a symbolic link,
  \<^verbatim>\<open>dnf_keyring_add_public_key\<close> returns \<^verbatim>\<open>TRUE\<close> with no error set and leaves the whole
  state as it was: the keyring is not modified and the trace gains no event, so the file
  was not read.
\<close>

theorem add_public_key_skips_non_regular_and_symlink:
  assumes "\<not> g_file_test_is_regular E filename \<or> g_file_test_is_symlink E filename"
  shows "dnf_keyring_add_public_key E filename w = ((True, None), w)"
  using assms by (auto simp: dnf_keyring_add_public_key_def)

theorem add_public_key_skips_non_regular_and_symlink_witness:
  "\<not> g_file_test_is_regular demo_env ''/etc/pki/rpm-gpg/subdir''
   \<and> dnf_keyring_add_public_key demo_env ''/etc/pki/rpm-gpg/subdir'' (demo_world [7])
       = ((True, None), demo_world [7])
   \<and> g_file_test_is_regular demo_env ''/etc/pki/rpm-gpg/link''
   \<and> g_file_test_is_symlink demo_env ''/etc/pki/rpm-gpg/link''
   \<and> dnf_keyring_add_public_key demo_env ''/etc/pki/rpm-gpg/link'' (demo_world [7])
       = ((True, None), demo_world [7])"
proof -
  have not_regular: "\<not> g_file_test_is_regular demo_env ''/etc/pki/rpm-gpg/subdir''"
    by (simp add: demo_env_def)
  have regular: "g_file_test_is_regular demo_env ''/etc/pki/rpm-gpg/link''"
    by (simp add: demo_env_def)
  have symlink: "g_file_test_is_symlink demo_env ''/etc/pki/rpm-gpg/link''"
    by (simp add: demo_env_def)
  show ?thesis
    using add_public_key_skips_non_regular_and_symlink
            [of demo_env "''/etc/pki/rpm-gpg/subdir''" "demo_world [7]"]
          add_public_key_skips_non_regular_and_symlink
            [of demo_env "''/etc/pki/rpm-gpg/link''" "demo_world [7]"]
          not_regular regular symlink
    by simp
qed

text \<open>
  Claim C4. When the contents read from a regular, non-symlink file do not parse as
  armored data (\<^verbatim>\<open>pgpParsePkts\<close> returns a negative armor type), or parse as an armor
  type other than \<^verbatim>\<open>PGPARMOR_PUBKEY\<close>, the function returns \<^verbatim>\<open>FALSE\<close> with the error
  "failed to parse PKI file <path>" or "PKI file <path> is not a public key"
  respectively; the state gains the read of the file and nothing else: the keyring is
  as it was and \<^verbatim>\<open>rpmKeyringAddKey\<close> was not called.
\<close>

theorem add_public_key_rejects_malformed_armor:
  assumes "g_file_test_is_regular E filename"
    and "\<not> g_file_test_is_symlink E filename"
    and "g_file_get_contents E filename = Inr data"
    and "fst (pgpParsePkts E data) < 0 \<or> fst (pgpParsePkts E data) \<noteq> PGPARMOR_PUBKEY"
  shows "dnf_keyring_add_public_key E filename w =
           ((False,
             Some (g_set_error DNF_ERROR_GPG_SIGNATURE_INVALID
                     (if fst (pgpParsePkts E data) < 0
                      then ''failed to parse PKI file '' @ filename
                      else ''PKI file '' @ filename @ '' is not a public key''))),
            emit (Ev_file_read filename) w)
         \<and> keyring (snd (dnf_keyring_add_public_key E filename w)) = keyring w"
  using assms
  by (auto simp: dnf_keyring_add_public_key_def Let_def emit_def split: prod.splits)

theorem add_public_key_rejects_malformed_armor_witness:
  "dnf_keyring_add_public_key demo_env ''/etc/pki/rpm-gpg/bad.gpg'' (demo_world [7]) =
     ((False, Some (g_set_error DNF_ERROR_GPG_SIGNATURE_INVALID
                     ''failed to parse PKI file /etc/pki/rpm-gpg/bad.gpg'')),
      emit (Ev_file_read ''/etc/pki/rpm-gpg/bad.gpg'') (demo_world [7]))
   \<and> keyring (snd (dnf_keyring_add_public_key demo_env ''/etc/pki/rpm-gpg/bad.gpg'' (demo_world [7]))) = [7]
   \<and> dnf_keyring_add_public_key demo_env ''/etc/pki/rpm-gpg/sig.asc'' (demo_world [7]) =
     ((False, Some (g_set_error DNF_ERROR_GPG_SIGNATURE_INVALID
                     ''PKI file /etc/pki/rpm-gpg/sig.asc is not a public key'')),
      emit (Ev_file_read ''/etc/pki/rpm-gpg/sig.asc'') (demo_world [7]))
   \<and> keyring (snd (dnf_keyring_add_public_key demo_env ''/etc/pki/rpm-gpg/sig.asc'' (demo_world [7]))) = [7]"
proof -
  have bad: "g_file_test_is_regular demo_env ''/etc/pki/rpm-gpg/bad.gpg''"
    "\<not> g_file_test_is_symlink demo_env ''/etc/pki/rpm-gpg/bad.gpg''"
    "g_file_get_contents demo_env ''/etc/pki/rpm-gpg/bad.gpg'' = Inr ''garbage''"
    "fst (pgpParsePkts demo_env ''garbage'') = - 1"
    by (simp_all add: demo_env_def)
  have sig: "g_file_test_is_regular demo_env ''/etc/pki/rpm-gpg/sig.asc''"
    "\<not> g_file_test_is_symlink demo_env ''/etc/pki/rpm-gpg/sig.asc''"
    "g_file_get_contents demo_env ''/etc/pki/rpm-gpg/sig.asc'' = Inr ''SIGNATURE''"
    "fst (pgpParsePkts demo_env ''SIGNATURE'') = 3"
    by (simp_all add: demo_env_def)
  show ?thesis
    using add_public_key_rejects_malformed_armor [of demo_env "''/etc/pki/rpm-gpg/bad.gpg''" "''garbage''" "demo_world [7]"]
          add_public_key_rejects_malformed_armor [of demo_env "''/etc/pki/rpm-gpg/sig.asc''" "''SIGNATURE''" "demo_world [7]"]
          bad sig
    by (simp add: PGPARMOR_PUBKEY_def emit_def demo_world_def)
qed

text \<open>
  Claim C5. When the digest of the key parsed from the file is already found in the
  keyring, any number \<open>n\<close> of successive imports of that file return \<^verbatim>\<open>TRUE\<close> with no
  error set, each of them; the keyring is unchanged and \<^verbatim>\<open>rpmKeyringAddKey\<close> is never
  called.
\<close>

theorem add_public_key_reimport_idempotent:
  assumes "g_file_test_is_regular E filename"
    and "\<not> g_file_test_is_symlink E filename"
    and "g_file_get_contents E filename = Inr data"
    and "pgpParsePkts E data = (PGPARMOR_PUBKEY, pkt)"
    and "rpmPubkeyNew E pkt = Some pubkey"
    and "rpmKeyringLookup E (keyring w) (rpmPubkeyDig E pubkey) = RPMRC_OK"
  shows "fst (import_times E filename n w) = replicate n (True, None)
         \<and> keyring (snd (import_times E filename n w)) = keyring w
         \<and> key_adds (trace (snd (import_times E filename n w))) = key_adds (trace w)"
  using assms(6)
proof (induction n arbitrary: w)
  case 0
  then show ?case by simp
next
  case (Suc n)
  let ?w' = "emit (Ev_debug (filename @ '' is already present'')) (emit (Ev_file_read filename) w)"
  have step: "dnf_keyring_add_public_key E filename w = ((True, None), ?w')"
    using add_public_key_already_present [OF assms(1-5) Suc.prems] .
  have kr: "keyring ?w' = keyring w"
    by (simp add: emit_def)
  have tr: "key_adds (trace ?w') = key_adds (trace w)"
    by (simp add: emit_def key_adds_append)
  have "rpmKeyringLookup E (keyring ?w') (rpmPubkeyDig E pubkey) = RPMRC_OK"
    using Suc.prems kr by simp
  from Suc.IH [OF this] show ?case
    using step kr tr by (simp add: case_prod_beta)
qed


theorem add_public_key_reimport_idempotent_witness:
  "g_file_test_is_regular demo_env ''/etc/pki/rpm-gpg/good.gpg''
   \<and> \<not> g_file_test_is_symlink demo_env ''/etc/pki/rpm-gpg/good.gpg''
   \<and> g_file_get_contents demo_env ''/etc/pki/rpm-gpg/good.gpg'' = Inr ''PUBLIC KEY''
   \<and> pgpParsePkts demo_env ''PUBLIC KEY'' = (PGPARMOR_PUBKEY, [1])
   \<and> rpmPubkeyNew demo_env [1] = Some 1
   \<and> rpmKeyringLookup demo_env (keyring (demo_world [1])) (rpmPubkeyDig demo_env 1) = RPMRC_OK
   \<and> fst (import_times demo_env ''/etc/pki/rpm-gpg/good.gpg'' 3 (demo_world [1]))
       = [(True, None), (True, None), (True, None)]
   \<and> keyring (snd (import_times demo_env ''/etc/pki/rpm-gpg/good.gpg'' 3 (demo_world [1]))) = [1]
   \<and> key_adds (trace (snd (import_times demo_env ''/etc/pki/rpm-gpg/good.gpg'' 3 (demo_world [1]))))
       = []"
proof -
  have h: "g_file_test_is_regular demo_env ''/etc/pki/rpm-gpg/good.gpg''"
    "\<not> g_file_test_is_symlink demo_env ''/etc/pki/rpm-gpg/good.gpg''"
    "g_file_get_contents demo_env ''/etc/pki/rpm-gpg/good.gpg'' = Inr ''PUBLIC KEY''"
    "pgpParsePkts demo_env ''PUBLIC KEY'' = (PGPARMOR_PUBKEY, [1])"
    "rpmPubkeyNew demo_env [1] = Some 1"
    "rpmKeyringLookup demo_env (keyring (demo_world [1])) (rpmPubkeyDig demo_env 1) = RPMRC_OK"
    by (simp_all add: demo_env_def demo_world_def PGPARMOR_PUBKEY_def RPMRC_OK_def)
  have w: "keyring (demo_world [1]) = [1]" "trace (demo_world [1]) = []"
    by (simp_all add: demo_world_def)
  have rep: "replicate 3 (True, None :: gerror option) = [(True, None), (True, None), (True, None)]"
    by (simp add: numeral_3_eq_3)
  note inst = add_public_key_reimport_idempotent [OF h, of 3]
  show ?thesis
    using inst h by (simp only: rep w key_adds.simps simp_thms)
qed

text \<open>
  Claim C6. The primary key was added and the subkeys are \<open>pre @ bad # post\<close>, where the
  adds of \<open>pre\<close> succeed one after the other and the add of \<open>bad\<close> fails. Then the
  function returns \<^verbatim>\<open>FALSE\<close> with "failed to add subkeys for <path> to rpmdb";
  \<^verbatim>\<open>rpmKeyringAddKey\<close> was called for the primary key, for \<open>pre\<close> in order and for \<open>bad\<close>, and
  for no key of \<open>post\<close>; the keyring is the one these calls produced, nothing is undone.
  Hence any property of the keyring that adding keys preserves (such as the presence of
  a key) and that held after the primary key or after a subkey of \<open>pre\<close> was added holds
  when the function returns.
\<close>

theorem add_public_key_subkey_failure_no_rollback:
  assumes "g_file_test_is_regular E filename"
    and "\<not> g_file_test_is_symlink E filename"
    and "g_file_get_contents E filename = Inr data"
    and "pgpParsePkts E data = (PGPARMOR_PUBKEY, pkt)"
    and "rpmPubkeyNew E pkt = Some pubkey"
    and "rpmKeyringLookup E (keyring w) (rpmPubkeyDig E pubkey) \<noteq> RPMRC_OK"
    and "rpmKeyringAddKey E (keyring w) pubkey = (rc, kr1)"
    and "rc \<noteq> 1" and "0 \<le> rc"
    and "rpmGetSubkeys E pubkey = pre @ bad # post"
    and "adds_ok E pre kr1"
    and "fst (rpmKeyringAddKey E (keyring_after E pre kr1) bad) < 0"
  shows "dnf_keyring_add_public_key E filename w =
           ((False,
             Some (g_set_error DNF_ERROR_GPG_SIGNATURE_INVALID
                     (''failed to add subkeys for '' @ filename @ '' to rpmdb''))),
            w\<lparr>keyring := keyring_after E (pubkey # pre @ [bad]) (keyring w),
              trace := trace w @ Ev_file_read filename
                         # map Ev_keyring_add (pubkey # pre @ [bad])\<rparr>)
         \<and> (\<forall>P ks ks'.
               (\<forall>kr k. P kr \<longrightarrow> P (snd (rpmKeyringAddKey E kr k)))
               \<and> pubkey # pre = ks @ ks' \<and> P (keyring_after E ks (keyring w))
               \<longrightarrow> P (keyring (snd (dnf_keyring_add_public_key E filename w))))"
proof -
  let ?w1 = "emit (Ev_file_read filename) w"
  let ?w2 = "emit (Ev_keyring_add pubkey) (?w1\<lparr>keyring := kr1\<rparr>)"
  let ?e = "g_set_error DNF_ERROR_GPG_SIGNATURE_INVALID
              (''failed to add subkeys for '' @ filename @ '' to rpmdb'')"
  have kr2: "keyring ?w2 = kr1"
    by (simp add: emit_def)
  have loop: "add_subkeys E filename (pre @ bad # post) ?w2 =
           (Some ?e,
            ?w2\<lparr>keyring := keyring_after E (pre @ [bad]) (keyring ?w2),
              trace := trace ?w2 @ map Ev_keyring_add (pre @ [bad])\<rparr>)"
    using add_subkeys_first_failure [of E pre ?w2 bad filename post] assms(11,12)
    by (simp only: kr2)
  have add: "keyring_add E pubkey ?w1 = (rc, ?w2)"
    using assms(7) by (simp add: keyring_add_def emit_def)
  have res: "dnf_keyring_add_public_key E filename w =
           ((False, Some ?e),
            w\<lparr>keyring := keyring_after E (pubkey # pre @ [bad]) (keyring w),
              trace := trace w @ Ev_file_read filename
                         # map Ev_keyring_add (pubkey # pre @ [bad])\<rparr>)"
    using assms(1-10) add loop
    by (simp add: dnf_keyring_add_public_key_def Let_def PGPARMOR_PUBKEY_def emit_def
          keyring_after_Cons)
  have stable: "P (keyring (snd (dnf_keyring_add_public_key E filename w)))"
    if st: "\<And>kr k. P kr \<Longrightarrow> P (snd (rpmKeyringAddKey E kr k))"
      and split: "pubkey # pre = ks @ ks'"
      and P: "P (keyring_after E ks (keyring w))"
    for P ks ks'
  proof -
    have eq: "pubkey # pre @ [bad] = (ks @ ks') @ [bad]"
      using arg_cong [OF split, of "\<lambda>xs. xs @ [bad]"] by simp
    have "keyring (snd (dnf_keyring_add_public_key E filename w))
            = keyring_after E ((ks @ ks') @ [bad]) (keyring w)"
      unfolding res eq [symmetric] by simp
    also have "\<dots> = keyring_after E (ks' @ [bad]) (keyring_after E ks (keyring w))"
      by (simp add: keyring_after_append)
    finally show ?thesis
      using keyring_after_stable [of P E "keyring_after E ks (keyring w)" "ks' @ [bad]"] st P
      by simp
  qed
  show ?thesis
  proof (rule conjI)
    show "dnf_keyring_add_public_key E filename w =
           ((False, Some ?e),
            w\<lparr>keyring := keyring_after E (pubkey # pre @ [bad]) (keyring w),
              trace := trace w @ Ev_file_read filename
                         # map Ev_keyring_add (pubkey # pre @ [bad])\<rparr>)"
      by (rule res)
  next
    show "\<forall>P ks ks'.
               (\<forall>kr k. P kr \<longrightarrow> P (snd (rpmKeyringAddKey E kr k)))
               \<and> pubkey # pre = ks @ ks' \<and> P (keyring_after E ks (keyring w))
               \<longrightarrow> P (keyring (snd (dnf_keyring_add_public_key E filename w)))"
    proof (intro allI impI, elim conjE)
      fix P :: "'a \<Rightarrow> bool" and ks ks'
      assume st: "\<forall>kr k. P kr \<longrightarrow> P (snd (rpmKeyringAddKey E kr k))"
        and sp: "pubkey # pre = ks @ ks'"
        and P: "P (keyring_after E ks (keyring w))"
      from st have "\<And>kr k. P kr \<Longrightarrow> P (snd (rpmKeyringAddKey E kr k))"
        by blast
      from stable [OF this sp P]
      show "P (keyring (snd (dnf_keyring_add_public_key E filename w)))" .
    qed
  qed
qed

theorem add_public_key_subkey_failure_no_rollback_witness:
  "g_file_test_is_regular demo_env ''/etc/pki/rpm-gpg/good.gpg''
   \<and> \<not> g_file_test_is_symlink demo_env ''/etc/pki/rpm-gpg/good.gpg''
   \<and> g_file_get_contents demo_env ''/etc/pki/rpm-gpg/good.gpg'' = Inr ''PUBLIC KEY''
   \<and> pgpParsePkts demo_env ''PUBLIC KEY'' = (PGPARMOR_PUBKEY, [1])
   \<and> rpmPubkeyNew demo_env [1] = Some 1
   \<and> rpmKeyringLookup demo_env (keyring (demo_world [])) (rpmPubkeyDig demo_env 1) \<noteq> RPMRC_OK
   \<and> rpmKeyringAddKey demo_env (keyring (demo_world [])) 1 = (0, [1])
   \<and> rpmGetSubkeys demo_env 1 = [11] @ 12 # [13]
   \<and> adds_ok demo_env [11] [1]
   \<and> fst (rpmKeyringAddKey demo_env (keyring_after demo_env [11] [1]) 12) < 0
   \<and> dnf_keyring_add_public_key demo_env ''/etc/pki/rpm-gpg/good.gpg'' (demo_world []) =
       ((False,
         Some (g_set_error DNF_ERROR_GPG_SIGNATURE_INVALID
                 ''failed to add subkeys for /etc/pki/rpm-gpg/good.gpg to rpmdb'')),
        \<lparr>keyring = [1, 11],
         trace = [Ev_file_read ''/etc/pki/rpm-gpg/good.gpg'',
                  Ev_keyring_add 1, Ev_keyring_add 11, Ev_keyring_add 12],
         rpmlog_callback = None\<rparr>)
   \<and> 1 \<in> set (keyring (snd (dnf_keyring_add_public_key demo_env
                                 ''/etc/pki/rpm-gpg/good.gpg'' (demo_world []))))"
proof -
  have h: "g_file_test_is_regular demo_env ''/etc/pki/rpm-gpg/good.gpg''"
    "\<not> g_file_test_is_symlink demo_env ''/etc/pki/rpm-gpg/good.gpg''"
    "g_file_get_contents demo_env ''/etc/pki/rpm-gpg/good.gpg'' = Inr ''PUBLIC KEY''"
    "pgpParsePkts demo_env ''PUBLIC KEY'' = (PGPARMOR_PUBKEY, [1])"
    "rpmPubkeyNew demo_env [1] = Some 1"
    "rpmKeyringLookup demo_env (keyring (demo_world [])) (rpmPubkeyDig demo_env 1) \<noteq> RPMRC_OK"
    "rpmKeyringAddKey demo_env (keyring (demo_world [])) 1 = (0, [1])"
    "(0::int) \<noteq> 1" "(0::int) \<le> 0"
    "rpmGetSubkeys demo_env 1 = [11] @ 12 # [13]"
    "adds_ok demo_env [11] [1]"
    "fst (rpmKeyringAddKey demo_env (keyring_after demo_env [11] [1]) 12) < 0"
    by (simp_all add: demo_env_def demo_world_def PGPARMOR_PUBKEY_def RPMRC_OK_def
          keyring_after_def)
  note inst = add_public_key_subkey_failure_no_rollback [OF h]
  have after: "keyring_after demo_env (1 # [11] @ [12]) (keyring (demo_world [])) = [1, 11]"
    by (simp add: keyring_after_def demo_env_def demo_world_def)
  have res: "dnf_keyring_add_public_key demo_env ''/etc/pki/rpm-gpg/good.gpg'' (demo_world []) =
       ((False,
         Some (g_set_error DNF_ERROR_GPG_SIGNATURE_INVALID
                 ''failed to add subkeys for /etc/pki/rpm-gpg/good.gpg to rpmdb'')),
        \<lparr>keyring = [1, 11],
         trace = [Ev_file_read ''/etc/pki/rpm-gpg/good.gpg'',
                  Ev_keyring_add 1, Ev_keyring_add 11, Ev_keyring_add 12],
         rpmlog_callback = None\<rparr>)"
    using inst [THEN conjunct1] after by (simp add: demo_world_def)
  have stable: "\<forall>kr k. 1 \<in> set kr \<longrightarrow> 1 \<in> set (snd (rpmKeyringAddKey demo_env kr k))"
    by (simp add: demo_env_def)
  have split: "1 # [11] = [1::nat] @ [11]"
    by simp
  have start: "1 \<in> set (keyring_after demo_env [1] (keyring (demo_world [])))"
    by (simp add: keyring_after_def demo_env_def demo_world_def)
  have kept: "1 \<in> set (keyring (snd (dnf_keyring_add_public_key demo_env
                                 ''/etc/pki/rpm-gpg/good.gpg'' (demo_world []))))"
    using inst [THEN conjunct2, rule_format, of "\<lambda>kr. 1 \<in> set kr" "[1]" "[11]"]
      stable split start by blast
  show ?thesis
    using h res kept by simp
qed

text \<open>
  Claim C10. When the lookup of the primary key succeeds, or \<^verbatim>\<open>rpmKeyringAddKey\<close> returns 1
  for it, the function returns \<^verbatim>\<open>TRUE\<close> with no error at once. The trace shows the calls
  made: no \<^verbatim>\<open>rpmKeyringAddKey\<close> in the first case and the one for the primary key in the
  second, whatever \<^verbatim>\<open>rpmGetSubkeys\<close> would return; so no subkey is added, and in the
  first case the keyring is unchanged.
\<close>

theorem add_public_key_known_primary_skips_subkeys:
  assumes "g_file_test_is_regular E filename"
    and "\<not> g_file_test_is_symlink E filename"
    and "g_file_get_contents E filename = Inr data"
    and "pgpParsePkts E data = (PGPARMOR_PUBKEY, pkt)"
    and "rpmPubkeyNew E pkt = Some pubkey"
    and "rpmKeyringLookup E (keyring w) (rpmPubkeyDig E pubkey) = RPMRC_OK
         \<or> fst (rpmKeyringAddKey E (keyring w) pubkey) = 1"
  shows "dnf_keyring_add_public_key E filename w =
           ((True, None),
            (if rpmKeyringLookup E (keyring w) (rpmPubkeyDig E pubkey) = RPMRC_OK
             then w\<lparr>trace := trace w @ [Ev_file_read filename,
                                          Ev_debug (filename @ '' is already present'')]\<rparr>
             else w\<lparr>keyring := snd (rpmKeyringAddKey E (keyring w) pubkey),
                    trace := trace w @ [Ev_file_read filename, Ev_keyring_add pubkey,
                                        Ev_debug (filename @ '' is already added'')]\<rparr>))"
  using assms
  by (auto simp: dnf_keyring_add_public_key_def Let_def PGPARMOR_PUBKEY_def emit_def
        keyring_add_def split: prod.splits)

theorem add_public_key_known_primary_skips_subkeys_witness:
  "g_file_test_is_regular demo_env ''/etc/pki/rpm-gpg/good.gpg''
   \<and> \<not> g_file_test_is_symlink demo_env ''/etc/pki/rpm-gpg/good.gpg''
   \<and> g_file_get_contents demo_env ''/etc/pki/rpm-gpg/good.gpg'' = Inr ''PUBLIC KEY''
   \<and> pgpParsePkts demo_env ''PUBLIC KEY'' = (PGPARMOR_PUBKEY, [1])
   \<and> rpmPubkeyNew demo_env [1] = Some 1
   \<and> rpmGetSubkeys demo_env 1 = [11, 12, 13]
   \<and> rpmKeyringLookup demo_env (keyring (demo_world [1])) (rpmPubkeyDig demo_env 1) = RPMRC_OK
   \<and> dnf_keyring_add_public_key demo_env ''/etc/pki/rpm-gpg/good.gpg'' (demo_world [1]) =
       ((True, None),
        \<lparr>keyring = [1],
         trace = [Ev_file_read ''/etc/pki/rpm-gpg/good.gpg'',
                  Ev_debug ''/etc/pki/rpm-gpg/good.gpg is already present''],
         rpmlog_callback = None\<rparr>)
   \<and> rpmKeyringLookup (demo_env\<lparr>rpmKeyringLookup := \<lambda>kr d. 4\<rparr>) (keyring (demo_world [1]))
         (rpmPubkeyDig demo_env 1) \<noteq> RPMRC_OK
   \<and> fst (rpmKeyringAddKey (demo_env\<lparr>rpmKeyringLookup := \<lambda>kr d. 4\<rparr>)
            (keyring (demo_world [1])) 1) = 1
   \<and> dnf_keyring_add_public_key (demo_env\<lparr>rpmKeyringLookup := \<lambda>kr d. 4\<rparr>)
         ''/etc/pki/rpm-gpg/good.gpg'' (demo_world [1]) =
       ((True, None),
        \<lparr>keyring = [1],
         trace = [Ev_file_read ''/etc/pki/rpm-gpg/good.gpg'', Ev_keyring_add 1,
                  Ev_debug ''/etc/pki/rpm-gpg/good.gpg is already added''],
         rpmlog_callback = None\<rparr>)"
proof -
  let ?E = "demo_env\<lparr>rpmKeyringLookup := \<lambda>kr d. 4\<rparr>"
  have h: "g_file_test_is_regular demo_env ''/etc/pki/rpm-gpg/good.gpg''"
    "\<not> g_file_test_is_symlink demo_env ''/etc/pki/rpm-gpg/good.gpg''"
    "g_file_get_contents demo_env ''/etc/pki/rpm-gpg/good.gpg'' = Inr ''PUBLIC KEY''"
    "pgpParsePkts demo_env ''PUBLIC KEY'' = (PGPARMOR_PUBKEY, [1])"
    "rpmPubkeyNew demo_env [1] = Some 1"
    by (simp_all add: demo_env_def PGPARMOR_PUBKEY_def)
  have h': "g_file_test_is_regular ?E ''/etc/pki/rpm-gpg/good.gpg''"
    "\<not> g_file_test_is_symlink ?E ''/etc/pki/rpm-gpg/good.gpg''"
    "g_file_get_contents ?E ''/etc/pki/rpm-gpg/good.gpg'' = Inr ''PUBLIC KEY''"
    "pgpParsePkts ?E ''PUBLIC KEY'' = (PGPARMOR_PUBKEY, [1])"
    "rpmPubkeyNew ?E [1] = Some 1"
    using h by simp_all
  have sub: "rpmGetSubkeys demo_env 1 = [11, 12, 13]"
    by (simp add: demo_env_def)
  have known: "rpmKeyringLookup demo_env (keyring (demo_world [1])) (rpmPubkeyDig demo_env 1) = RPMRC_OK"
    by (simp add: demo_env_def demo_world_def RPMRC_OK_def)
  have unknown: "rpmKeyringLookup ?E (keyring (demo_world [1])) (rpmPubkeyDig demo_env 1) \<noteq> RPMRC_OK"
    by (simp add: RPMRC_OK_def)
  have added: "rpmKeyringAddKey ?E (keyring (demo_world [1])) 1 = (1, [1])"
    by (simp add: demo_env_def demo_world_def)
  have dig: "rpmPubkeyDig ?E = rpmPubkeyDig demo_env"
    by simp
  have r1: "dnf_keyring_add_public_key demo_env ''/etc/pki/rpm-gpg/good.gpg'' (demo_world [1]) =
       ((True, None),
        \<lparr>keyring = [1],
         trace = [Ev_file_read ''/etc/pki/rpm-gpg/good.gpg'',
                  Ev_debug ''/etc/pki/rpm-gpg/good.gpg is already present''],
         rpmlog_callback = None\<rparr>)"
    using add_public_key_known_primary_skips_subkeys [OF h, of "demo_world [1]"] known by (simp add: demo_world_def)
  have r2: "dnf_keyring_add_public_key ?E ''/etc/pki/rpm-gpg/good.gpg'' (demo_world [1]) =
       ((True, None),
        \<lparr>keyring = [1],
         trace = [Ev_file_read ''/etc/pki/rpm-gpg/good.gpg'', Ev_keyring_add 1,
                  Ev_debug ''/etc/pki/rpm-gpg/good.gpg is already added''],
         rpmlog_callback = None\<rparr>)"
    using add_public_key_known_primary_skips_subkeys [OF h', of "demo_world [1]"] unknown added by (simp add: dig demo_world_def)
  show ?thesis
    using h sub known unknown added r1 r2 by simp
qed

section \<open>Properties of dnf\_keyring\_add\_public\_keys\<close>

subsection \<open>Auxiliary facts\<close>

lemma keyring_add_trace:
  "keyring_add E k w = (rc, w') \<Longrightarrow> trace w' = trace w @ [Ev_keyring_add k]"
  by (auto simp: keyring_add_def emit_def split: prod.splits)

lemma add_subkeys_keeps_events:
  "add_subkeys E filename ks w = (r, w') \<Longrightarrow> ev \<in> set (trace w) \<Longrightarrow> ev \<in> set (trace w')"
proof (induction ks arbitrary: w)
  case Nil
  then show ?case by simp
next
  case (Cons k ks)
  obtain rc w1 where add: "keyring_add E k w = (rc, w1)"
    by (cases "keyring_add E k w")
  have in1: "ev \<in> set (trace w1)"
    using keyring_add_trace [OF add] Cons.prems(2) by simp
  show ?case
  proof (cases "rc < 0")
    case True
    then show ?thesis using Cons.prems(1) add in1 by auto
  next
    case False
    then have "add_subkeys E filename ks w1 = (r, w')"
      using Cons.prems(1) add by simp
    from Cons.IH [OF this in1] show ?thesis .
  qed
qed

lemma add_public_key_failure_has_error:
  "dnf_keyring_add_public_key E filename w = ((False, err), w') \<Longrightarrow> err \<noteq> None"
  by (auto simp: dnf_keyring_add_public_key_def Let_def
        split: if_splits sum.splits prod.splits option.splits)

lemma add_public_key_keeps_events:
  assumes "dnf_keyring_add_public_key E filename w = (r, w')" and "ev \<in> set (trace w)"
  shows "ev \<in> set (trace w')"
  using assms
  by (auto simp: dnf_keyring_add_public_key_def Let_def emit_def
        split: if_splits sum.splits prod.splits option.splits
        dest!: keyring_add_trace dest: add_subkeys_keeps_events)

lemma add_public_key_reads_file:
  assumes "dnf_keyring_add_public_key E filename w = (r, w')"
    and "g_file_test_is_regular E filename" and "\<not> g_file_test_is_symlink E filename"
  shows "Ev_file_read filename \<in> set (trace w')"
  using assms
  by (auto simp: dnf_keyring_add_public_key_def Let_def emit_def
        split: if_splits sum.splits prod.splits option.splits
        dest!: keyring_add_trace dest: add_subkeys_keeps_events)


lemma add_public_keys_loop_returns:
  "\<exists>w'. add_public_keys_loop E names w = Some w'"
proof (induction names arbitrary: w)
  case Nil
  then show ?case by simp
next
  case (Cons name names)
  obtain ret err w1 where imp:
    "dnf_keyring_add_public_key E (g_build_filename E gpg_dir name) w = ((ret, err), w1)"
    by (metis surj_pair)
  show ?case
  proof (cases ret)
    case True
    then show ?thesis using imp Cons.IH [of w1] by simp
  next
    case False
    have "err \<noteq> None"
      using imp False add_public_key_failure_has_error [of E _ w err w1] by simp
    then obtain e where "err = Some e"
      by (cases err) simp_all
    then show ?thesis
      using imp False Cons.IH [of "emit (Ev_warning (message e)) w1"] by simp
  qed
qed

lemma add_public_keys_loop_append:
  "add_public_keys_loop E (xs @ ys) w =
     (case add_public_keys_loop E xs w of
        None \<Rightarrow> None
      | Some w' \<Rightarrow> add_public_keys_loop E ys w')"
proof (induction xs arbitrary: w)
  case Nil
  then show ?case by simp
next
  case (Cons x xs)
  show ?case
    by (simp add: Cons.IH split: prod.split option.split)
qed

lemma add_public_keys_loop_keeps_events:
  "add_public_keys_loop E names w = Some w' \<Longrightarrow> ev \<in> set (trace w) \<Longrightarrow> ev \<in> set (trace w')"
proof (induction names arbitrary: w)
  case Nil
  then show ?case by simp
next
  case (Cons name names)
  obtain ret err w1 where imp:
    "dnf_keyring_add_public_key E (g_build_filename E gpg_dir name) w = ((ret, err), w1)"
    by (metis surj_pair)
  have in1: "ev \<in> set (trace w1)"
    using add_public_key_keeps_events [OF imp Cons.prems(2)] .
  show ?case
  proof (cases ret)
    case True
    then have "add_public_keys_loop E names w1 = Some w'"
      using Cons.prems(1) imp by simp
    from Cons.IH [OF this in1] show ?thesis .
  next
    case False
    have "err \<noteq> None"
      using imp False add_public_key_failure_has_error [of E _ w err w1] by simp
    then obtain e where e: "err = Some e"
      by (cases err) simp_all
    have in2: "ev \<in> set (trace (emit (Ev_warning (message e)) w1))"
      using in1 by (simp add: emit_def)
    have "add_public_keys_loop E names (emit (Ev_warning (message e)) w1) = Some w'"
      using Cons.prems(1) imp False e by simp
    from Cons.IH [OF this in2] show ?thesis .
  qed
qed

lemma add_public_keys_loop_tries_every_entry:
  assumes "add_public_keys_loop E names w = Some w'"
    and "name \<in> set names"
    and "g_file_test_is_regular E (g_build_filename E gpg_dir name)"
    and "\<not> g_file_test_is_symlink E (g_build_filename E gpg_dir name)"
  shows "Ev_file_read (g_build_filename E gpg_dir name) \<in> set (trace w')"
proof -
  obtain pre post where sp: "names = pre @ name # post"
    using assms(2) by (meson split_list)
  obtain w1 where w1: "add_public_keys_loop E pre w = Some w1"
    using add_public_keys_loop_returns by blast
  have rest: "add_public_keys_loop E (name # post) w1 = Some w'"
    using assms(1) w1 by (simp add: sp add_public_keys_loop_append)
  obtain ret err w2 where imp:
    "dnf_keyring_add_public_key E (g_build_filename E gpg_dir name) w1 = ((ret, err), w2)"
    by (metis surj_pair)
  have rd: "Ev_file_read (g_build_filename E gpg_dir name) \<in> set (trace w2)"
    using add_public_key_reads_file [OF imp assms(3,4)] .
  show ?thesis
  proof (cases ret)
    case True
    then have "add_public_keys_loop E post w2 = Some w'"
      using rest imp by simp
    from add_public_keys_loop_keeps_events [OF this rd] show ?thesis .
  next
    case False
    have "err \<noteq> None"
      using imp False add_public_key_failure_has_error [of E _ w1 err w2] by simp
    then obtain e where e: "err = Some e"
      by (cases err) simp_all
    have rd2: "Ev_file_read (g_build_filename E gpg_dir name)
                 \<in> set (trace (emit (Ev_warning (message e)) w2))"
      using rd by (simp add: emit_def)
    have "add_public_keys_loop E post (emit (Ev_warning (message e)) w2) = Some w'"
      using rest imp False e by simp
    from add_public_keys_loop_keeps_events [OF this rd2] show ?thesis .
  qed
qed


subsection \<open>The claim\<close>

text \<open>
  Claim C7. \<^verbatim>\<open>dnf_keyring_add_public_keys\<close> always returns, and returns \<^verbatim>\<open>TRUE\<close> with no
  error set. When \<^verbatim>\<open>g_dir_open\<close> fails with \<^verbatim>\<open>G_FILE_ERROR_NOENT\<close> the state is untouched
  (no warning, no key); when it fails otherwise the only effect is the warning with the
  error's message. When the directory opens, every entry is tried, those after a failed
  one included: the file of each entry that is a regular file and no symlink is read.
  When the import of an entry fails with error \<open>e\<close>, the warning with \<open>e\<close>'s message is
  logged and the loop goes on with the entries after it.
\<close>

theorem add_public_keys_always_succeeds:
  "(\<exists>w'. dnf_keyring_add_public_keys E w = Some ((True, None), w'))
   \<and> (\<forall>e. g_dir_open E gpg_dir = Inl e \<and> domain e = G_FILE_ERROR \<and> code e = G_FILE_ERROR_NOENT
          \<longrightarrow> dnf_keyring_add_public_keys E w = Some ((True, None), w))
   \<and> (\<forall>e. g_dir_open E gpg_dir = Inl e
            \<and> (domain e \<noteq> G_FILE_ERROR \<or> code e \<noteq> G_FILE_ERROR_NOENT)
          \<longrightarrow> dnf_keyring_add_public_keys E w
                = Some ((True, None), emit (Ev_warning (message e)) w))
   \<and> (\<forall>names. g_dir_open E gpg_dir = Inr names
          \<longrightarrow> (\<exists>w'. add_public_keys_loop E names w = Some w'
                     \<and> dnf_keyring_add_public_keys E w = Some ((True, None), w')
                     \<and> (\<forall>name \<in> set names.
                           g_file_test_is_regular E (g_build_filename E gpg_dir name)
                           \<and> \<not> g_file_test_is_symlink E (g_build_filename E gpg_dir name)
                           \<longrightarrow> Ev_file_read (g_build_filename E gpg_dir name) \<in> set (trace w'))))
   \<and> (\<forall>pre name post w1 e w2.
          add_public_keys_loop E pre w = Some w1
          \<and> dnf_keyring_add_public_key E (g_build_filename E gpg_dir name) w1
              = ((False, Some e), w2)
          \<longrightarrow> add_public_keys_loop E (pre @ name # post) w
                = add_public_keys_loop E post (emit (Ev_warning (message e)) w2))"
proof (intro conjI allI impI)
  show "\<exists>w'. dnf_keyring_add_public_keys E w = Some ((True, None), w')"
  proof (cases "g_dir_open E gpg_dir")
    case (Inl e)
    then show ?thesis by (simp add: dnf_keyring_add_public_keys_def)
  next
    case (Inr names)
    obtain w' where "add_public_keys_loop E names w = Some w'"
      using add_public_keys_loop_returns by blast
    then show ?thesis using Inr by (simp add: dnf_keyring_add_public_keys_def)
  qed
next
  fix e
  assume "g_dir_open E gpg_dir = Inl e \<and> domain e = G_FILE_ERROR \<and> code e = G_FILE_ERROR_NOENT"
  then show "dnf_keyring_add_public_keys E w = Some ((True, None), w)"
    by (simp add: dnf_keyring_add_public_keys_def)
next
  fix e
  assume "g_dir_open E gpg_dir = Inl e
            \<and> (domain e \<noteq> G_FILE_ERROR \<or> code e \<noteq> G_FILE_ERROR_NOENT)"
  then show "dnf_keyring_add_public_keys E w
                = Some ((True, None), emit (Ev_warning (message e)) w)"
    by (auto simp: dnf_keyring_add_public_keys_def)
next
  fix names
  assume dir: "g_dir_open E gpg_dir = Inr names"
  obtain w' where loop: "add_public_keys_loop E names w = Some w'"
    using add_public_keys_loop_returns by blast
  have res: "dnf_keyring_add_public_keys E w = Some ((True, None), w')"
    using dir loop by (simp add: dnf_keyring_add_public_keys_def)
  have tried: "\<forall>name \<in> set names.
                 g_file_test_is_regular E (g_build_filename E gpg_dir name)
                 \<and> \<not> g_file_test_is_symlink E (g_build_filename E gpg_dir name)
                 \<longrightarrow> Ev_file_read (g_build_filename E gpg_dir name) \<in> set (trace w')"
    using add_public_keys_loop_tries_every_entry [OF loop] by blast
  show "\<exists>w'. add_public_keys_loop E names w = Some w'
             \<and> dnf_keyring_add_public_keys E w = Some ((True, None), w')
             \<and> (\<forall>name \<in> set names.
                   g_file_test_is_regular E (g_build_filename E gpg_dir name)
                   \<and> \<not> g_file_test_is_symlink E (g_build_filename E gpg_dir name)
                   \<longrightarrow> Ev_file_read (g_build_filename E gpg_dir name) \<in> set (trace w'))"
    by (rule exI [of _ w']) (intro conjI loop res tried)
next
  fix pre name post w1 e w2
  assume "add_public_keys_loop E pre w = Some w1
          \<and> dnf_keyring_add_public_key E (g_build_filename E gpg_dir name) w1
              = ((False, Some e), w2)"
  then show "add_public_keys_loop E (pre @ name # post) w
                = add_public_keys_loop E post (emit (Ev_warning (message e)) w2)"
    by (simp add: add_public_keys_loop_append)
qed


theorem add_public_keys_always_succeeds_witness:
  "dnf_keyring_add_public_keys
     (demo_env\<lparr>g_dir_open := \<lambda>d. Inl \<lparr>domain = G_FILE_ERROR, code = G_FILE_ERROR_NOENT,
                                     message = ''No such file or directory''\<rparr>\<rparr>)
     (demo_world [7])
     = Some ((True, None), demo_world [7])
   \<and> dnf_keyring_add_public_keys
     (demo_env\<lparr>g_dir_open := \<lambda>d. Inl \<lparr>domain = G_FILE_ERROR, code = Other_code 2,
                                     message = ''Permission denied''\<rparr>\<rparr>)
     (demo_world [7])
     = Some ((True, None), emit (Ev_warning ''Permission denied'') (demo_world [7]))
   \<and> g_dir_open demo_env gpg_dir = Inr [''bad.gpg'', ''good.gpg'']
   \<and> dnf_keyring_add_public_keys demo_env (demo_world [])
     = Some ((True, None),
             \<lparr>keyring = [1, 11],
              trace = [Ev_file_read ''/etc/pki/rpm-gpg/bad.gpg'',
                       Ev_warning ''failed to parse PKI file /etc/pki/rpm-gpg/bad.gpg'',
                       Ev_file_read ''/etc/pki/rpm-gpg/good.gpg'',
                       Ev_keyring_add 1, Ev_keyring_add 11, Ev_keyring_add 12,
                       Ev_warning ''failed to add subkeys for /etc/pki/rpm-gpg/good.gpg to rpmdb''],
              rpmlog_callback = None\<rparr>)"
proof -
  let ?noent = "\<lparr>domain = G_FILE_ERROR, code = G_FILE_ERROR_NOENT,
                 message = ''No such file or directory''\<rparr>"
  let ?acces = "\<lparr>domain = G_FILE_ERROR, code = Other_code 2, message = ''Permission denied''\<rparr>"
  let ?E1 = "demo_env\<lparr>g_dir_open := \<lambda>d. Inl ?noent\<rparr>"
  let ?E2 = "demo_env\<lparr>g_dir_open := \<lambda>d. Inl ?acces\<rparr>"
  let ?bad = "g_set_error DNF_ERROR_GPG_SIGNATURE_INVALID
                ''failed to parse PKI file /etc/pki/rpm-gpg/bad.gpg''"
  let ?w2 = "emit (Ev_file_read ''/etc/pki/rpm-gpg/bad.gpg'') (demo_world [])"
  let ?final = "\<lparr>keyring = [1, 11],
              trace = [Ev_file_read ''/etc/pki/rpm-gpg/bad.gpg'',
                       Ev_warning ''failed to parse PKI file /etc/pki/rpm-gpg/bad.gpg'',
                       Ev_file_read ''/etc/pki/rpm-gpg/good.gpg'',
                       Ev_keyring_add 1, Ev_keyring_add 11, Ev_keyring_add (12::nat),
                       Ev_warning ''failed to add subkeys for /etc/pki/rpm-gpg/good.gpg to rpmdb''],
              rpmlog_callback = None\<rparr> :: (nat list, nat) world"
  have r1: "dnf_keyring_add_public_keys ?E1 (demo_world [7]) = Some ((True, None), demo_world [7])"
    using add_public_keys_always_succeeds [of ?E1 "demo_world [7]", THEN conjunct2, THEN conjunct1, rule_format, of ?noent]
    by simp
  have r2: "dnf_keyring_add_public_keys ?E2 (demo_world [7])
              = Some ((True, None), emit (Ev_warning ''Permission denied'') (demo_world [7]))"
    using add_public_keys_always_succeeds [of ?E2 "demo_world [7]", THEN conjunct2, THEN conjunct2, THEN conjunct1,
              rule_format, of ?acces]
    by simp
  have dir: "g_dir_open demo_env gpg_dir = Inr [''bad.gpg'', ''good.gpg'']"
    by (simp add: demo_env_def gpg_dir_def)
  have pre: "add_public_keys_loop demo_env [] (demo_world []) = Some (demo_world [])"
    by simp
  have bad: "dnf_keyring_add_public_key demo_env (g_build_filename demo_env gpg_dir ''bad.gpg'')
               (demo_world []) = ((False, Some ?bad), ?w2)"
    by (simp add: dnf_keyring_add_public_key_def demo_env_def gpg_dir_def Let_def)
  have good: "add_public_keys_loop demo_env [''good.gpg''] (emit (Ev_warning (message ?bad)) ?w2)
                = Some ?final"
    by (simp add: dnf_keyring_add_public_key_def demo_env_def gpg_dir_def Let_def emit_def
          demo_world_def keyring_add_def g_set_error_def PGPARMOR_PUBKEY_def RPMRC_OK_def)
  have loop: "add_public_keys_loop demo_env [''bad.gpg'', ''good.gpg''] (demo_world []) = Some ?final"
    using add_public_keys_always_succeeds [of demo_env "demo_world []", THEN conjunct2, THEN conjunct2, THEN conjunct2,
              THEN conjunct2, rule_format, of "[]" "demo_world []" "''bad.gpg''" ?bad ?w2
              "[''good.gpg'']"] pre bad good
    by simp
  have r3: "dnf_keyring_add_public_keys demo_env (demo_world []) = Some ((True, None), ?final)"
    using add_public_keys_always_succeeds [of demo_env "demo_world []", THEN conjunct2, THEN conjunct2, THEN conjunct2,
              THEN conjunct1, rule_format, OF dir] loop
    by auto
  show ?thesis
    using r1 r2 dir r3 by simp
qed

section \<open>Properties of dnf\_keyring\_check\_untrusted\_file\<close>

subsection \<open>Auxiliary facts\<close>









lemma get_signature_header_rsa_only:
  assumes "fst (headerGet E hdr RPMTAG_RSAHEADER) = 1"
    and "g hdr RPMTAG_RSAHEADER = headerGet E hdr RPMTAG_RSAHEADER"
  shows "get_signature_header (E\<lparr>headerGet := g\<rparr>) hdr = get_signature_header E hdr"
  using assms
  by (auto simp: get_signature_header_def RPMRC_NOTFOUND_def split: prod.splits)

lemma get_signature_header_selected:
  assumes "headerGet E hdr RPMTAG_RSAHEADER = (1, td)
           \<or> (fst (headerGet E hdr RPMTAG_RSAHEADER) \<noteq> 1
              \<and> headerGet E hdr RPMTAG_DSAHEADER = (1, td))"
  shows "get_signature_header E hdr = (RPMRC_NOTFOUND, td)"
  using assms
  by (auto simp: get_signature_header_def RPMRC_NOTFOUND_def split: prod.splits)

subsection \<open>The claims\<close>



text \<open>
  Claim C2, as the code has it. The file is open, the keyring is bound and the chain
  check returned \<open>vrc\<close>.
  \<^item> When the chain check failed (\<open>vrc \<noteq> 0\<close>) the call returns the step-4 error
    "<path> could not be verified." before the header is read, whatever the package
    holds: never \<^verbatim>\<open>TRUE\<close>, and not "package not signed" either.
  \<^item> When the chain check passed and the header is read without error: the signature data
    \<open>td\<close> the call goes on with is the RSA field's when \<^verbatim>\<open>headerGet\<close> finds that field
    (returns 1), and the DSA field's when the RSA field is not found and the DSA field
    is. In both cases the result of the call is what the digest parsed from \<open>td\<close> gives:
    the digest parse error, the keyring lookup error, or \<^verbatim>\<open>TRUE\<close>. When the RSA field is
    found the result is the same whatever \<^verbatim>\<open>headerGet\<close> would give for the DSA tag. When
    neither field is found the call returns \<^verbatim>\<open>FALSE\<close> with
    "package not signed: <basename>", although the chain check passed.
\<close>

theorem check_untrusted_file_signature_header_selection:
  assumes "Fopen E filename = Some fd"
    and "\<not> Ferror E fd"
    and "\<not> rpmtsSetKeyring E (keyring w) < 0"
    and "rpmcliVerifySignatures E (keyring w) filename = (vrc, recs)"
  shows "(vrc \<noteq> 0
            \<longrightarrow> dnf_keyring_check_untrusted_file E filename w =
                  ((False,
                    Some (g_set_error DNF_ERROR_GPG_SIGNATURE_INVALID
                            (filename @ '' could not be verified.'' @ [newline]
                               @ (case fold rpmcliverifysignatures_log_handler_cb recs None of
                                    Some s \<Rightarrow> s
                                  | None \<Rightarrow> ''UNKNOWN ERROR'')))),
                   w\<lparr>rpmlog_callback := None\<rparr>))
         \<and> (\<forall>hdr0 hdr.
               vrc = 0 \<and> rpmReadPackageFile E (keyring w) fd filename = (RPMRC_OK, hdr0)
               \<and> hdr = headerConvert E hdr0
               \<longrightarrow>
               (\<forall>td. headerGet E hdr RPMTAG_RSAHEADER = (1, td)
                       \<or> (fst (headerGet E hdr RPMTAG_RSAHEADER) \<noteq> 1
                          \<and> headerGet E hdr RPMTAG_DSAHEADER = (1, td))
                  \<longrightarrow> dnf_keyring_check_untrusted_file E filename w =
                        (case pgpPrtPkts E td of
                           (rc, dig) \<Rightarrow>
                             if rc \<noteq> RPMRC_OK then
                               ((False,
                                 Some (g_set_error DNF_ERROR_FILE_INVALID
                                         (''failed to parse digest header for '' @ filename))),
                                w\<lparr>rpmlog_callback := None\<rparr>)
                             else if rpmKeyringLookup E (keyring w) dig \<noteq> RPMRC_OK then
                               ((False,
                                 Some (g_set_error DNF_ERROR_GPG_SIGNATURE_INVALID
                                         (''failed to lookup digest in keyring for ''
                                            @ filename))),
                                w\<lparr>rpmlog_callback := None\<rparr>)
                             else
                               ((True, None),
                                (emit (Ev_debug (filename @ '' has been verified as trusted''))
                                   w)\<lparr>rpmlog_callback := None\<rparr>)))
               \<and> (fst (headerGet E hdr RPMTAG_RSAHEADER) = 1
                  \<longrightarrow> get_signature_header E hdr = headerGet E hdr RPMTAG_RSAHEADER
                      \<and> (\<forall>g. g hdr RPMTAG_RSAHEADER = headerGet E hdr RPMTAG_RSAHEADER
                             \<longrightarrow> dnf_keyring_check_untrusted_file (E\<lparr>headerGet := g\<rparr>) filename w
                                   = dnf_keyring_check_untrusted_file E filename w))
               \<and> (fst (headerGet E hdr RPMTAG_RSAHEADER) \<noteq> 1
                  \<longrightarrow> get_signature_header E hdr = headerGet E hdr RPMTAG_DSAHEADER)
               \<and> (fst (headerGet E hdr RPMTAG_RSAHEADER) \<noteq> 1
                    \<and> fst (headerGet E hdr RPMTAG_DSAHEADER) \<noteq> 1
                  \<longrightarrow> dnf_keyring_check_untrusted_file E filename w =
                        ((False,
                          Some (g_set_error DNF_ERROR_GPG_SIGNATURE_INVALID
                                  (''package not signed: '' @ g_path_get_basename E filename))),
                         w\<lparr>rpmlog_callback := None\<rparr>)))"
proof (intro conjI impI allI)
  assume "vrc \<noteq> 0"
  then show "dnf_keyring_check_untrusted_file E filename w =
                  ((False,
                    Some (g_set_error DNF_ERROR_GPG_SIGNATURE_INVALID
                            (filename @ '' could not be verified.'' @ [newline]
                               @ (case fold rpmcliverifysignatures_log_handler_cb recs None of
                                    Some s \<Rightarrow> s
                                  | None \<Rightarrow> ''UNKNOWN ERROR'')))),
                   w\<lparr>rpmlog_callback := None\<rparr>)"
    using assms
    by (simp add: dnf_keyring_check_untrusted_file_def out_def Let_def rpmlog_dispatch_def)
next
  fix hdr0 hdr td
  assume reach: "vrc = 0 \<and> rpmReadPackageFile E (keyring w) fd filename = (RPMRC_OK, hdr0)
               \<and> hdr = headerConvert E hdr0"
    and sel: "headerGet E hdr RPMTAG_RSAHEADER = (1, td)
              \<or> (fst (headerGet E hdr RPMTAG_RSAHEADER) \<noteq> 1
                 \<and> headerGet E hdr RPMTAG_DSAHEADER = (1, td))"
  have "get_signature_header E (headerConvert E hdr0) = (RPMRC_NOTFOUND, td)"
    using get_signature_header_selected [OF sel] reach by simp
  then show "dnf_keyring_check_untrusted_file E filename w =
                        (case pgpPrtPkts E td of
                           (rc, dig) \<Rightarrow>
                             if rc \<noteq> RPMRC_OK then
                               ((False,
                                 Some (g_set_error DNF_ERROR_FILE_INVALID
                                         (''failed to parse digest header for '' @ filename))),
                                w\<lparr>rpmlog_callback := None\<rparr>)
                             else if rpmKeyringLookup E (keyring w) dig \<noteq> RPMRC_OK then
                               ((False,
                                 Some (g_set_error DNF_ERROR_GPG_SIGNATURE_INVALID
                                         (''failed to lookup digest in keyring for ''
                                            @ filename))),
                                w\<lparr>rpmlog_callback := None\<rparr>)
                             else
                               ((True, None),
                                (emit (Ev_debug (filename @ '' has been verified as trusted''))
                                   w)\<lparr>rpmlog_callback := None\<rparr>))"
    using assms reach
    by (simp add: dnf_keyring_check_untrusted_file_def out_def Let_def emit_def
          split: prod.split)
next
  fix hdr0 hdr
  assume "fst (headerGet E hdr RPMTAG_RSAHEADER) = 1"
  then show "get_signature_header E hdr = headerGet E hdr RPMTAG_RSAHEADER"
    by (auto simp: get_signature_header_def RPMRC_NOTFOUND_def split: prod.splits)
next
  fix hdr0 hdr g
  assume reach: "vrc = 0 \<and> rpmReadPackageFile E (keyring w) fd filename = (RPMRC_OK, hdr0)
               \<and> hdr = headerConvert E hdr0"
    and rsa: "fst (headerGet E hdr RPMTAG_RSAHEADER) = 1"
    and same: "g hdr RPMTAG_RSAHEADER = headerGet E hdr RPMTAG_RSAHEADER"
  have "get_signature_header (E\<lparr>headerGet := g\<rparr>) (headerConvert E hdr0)
          = get_signature_header E (headerConvert E hdr0)"
    using get_signature_header_rsa_only [of E hdr g] rsa same reach by simp
  then show "dnf_keyring_check_untrusted_file (E\<lparr>headerGet := g\<rparr>) filename w
               = dnf_keyring_check_untrusted_file E filename w"
    using assms reach
    by (simp add: dnf_keyring_check_untrusted_file_def Let_def split: prod.split)
next
  fix hdr0 hdr
  assume "fst (headerGet E hdr RPMTAG_RSAHEADER) \<noteq> 1"
  then show "get_signature_header E hdr = headerGet E hdr RPMTAG_DSAHEADER"
    by (auto simp: get_signature_header_def RPMRC_NOTFOUND_def split: prod.splits)
next
  fix hdr0 hdr
  assume reach: "vrc = 0 \<and> rpmReadPackageFile E (keyring w) fd filename = (RPMRC_OK, hdr0)
               \<and> hdr = headerConvert E hdr0"
    and none: "fst (headerGet E hdr RPMTAG_RSAHEADER) \<noteq> 1
                    \<and> fst (headerGet E hdr RPMTAG_DSAHEADER) \<noteq> 1"
  then have "fst (get_signature_header E (headerConvert E hdr0)) \<noteq> RPMRC_NOTFOUND"
    by (auto simp: get_signature_header_def RPMRC_NOTFOUND_def split: prod.splits)
  then show "dnf_keyring_check_untrusted_file E filename w =
                        ((False,
                          Some (g_set_error DNF_ERROR_GPG_SIGNATURE_INVALID
                                  (''package not signed: '' @ g_path_get_basename E filename))),
                         w\<lparr>rpmlog_callback := None\<rparr>)"
    using assms reach
    by (auto simp: dnf_keyring_check_untrusted_file_def out_def Let_def split: prod.splits)
qed


theorem check_untrusted_file_signature_header_selection_witness:
  "dnf_keyring_check_untrusted_file (demo_env_with 0 [] (None, Some [2])) ''pkg.rpm'' (demo_world [2])
     = ((True, None), emit (Ev_debug ''pkg.rpm has been verified as trusted'') (demo_world [2]))
   \<and> dnf_keyring_check_untrusted_file (demo_env_with 0 [] (Some [2], Some [3])) ''pkg.rpm''
        (demo_world [2])
     = ((True, None), emit (Ev_debug ''pkg.rpm has been verified as trusted'') (demo_world [2]))
   \<and> dnf_keyring_check_untrusted_file (demo_env_with 0 [] (Some [3], Some [2])) ''pkg.rpm''
        (demo_world [2])
     = ((False, Some (g_set_error DNF_ERROR_GPG_SIGNATURE_INVALID
                        ''failed to lookup digest in keyring for pkg.rpm'')),
        demo_world [2])
   \<and> dnf_keyring_check_untrusted_file
        ((demo_env_with 0 [] (Some [2], Some [3]))
           \<lparr>headerGet := \<lambda>h t. case t of RPMTAG_RSAHEADER \<Rightarrow> (1, [2])
                                       | RPMTAG_DSAHEADER \<Rightarrow> (0, [])\<rparr>)
        ''pkg.rpm'' (demo_world [2])
      = dnf_keyring_check_untrusted_file (demo_env_with 0 [] (Some [2], Some [3]))
          ''pkg.rpm'' (demo_world [2])
   \<and> get_signature_header (demo_env_with 0 [] (Some [2], Some [3])) (Some [2], Some [3]) = (1, [2])
   \<and> get_signature_header (demo_env_with 0 [] (None, Some [2])) (None, Some [2]) = (1, [2])
   \<and> dnf_keyring_check_untrusted_file (demo_env_with 0 [] (None, None))
        ''pkg.rpm'' (demo_world [2])
      = ((False, Some (g_set_error DNF_ERROR_GPG_SIGNATURE_INVALID ''package not signed: pkg.rpm'')),
         demo_world [2])
   \<and> dnf_keyring_check_untrusted_file (demo_env_with 1 [] (None, None))
        ''pkg.rpm'' (demo_world [2])
      = ((False,
          Some (g_set_error DNF_ERROR_GPG_SIGNATURE_INVALID
                  (''pkg.rpm could not be verified.'' @ [newline] @ ''UNKNOWN ERROR''))),
         demo_world [2])"
proof -
  have h: "Fopen (demo_env_with vrc [] hdr) ''pkg.rpm'' = Some 3"
    "\<not> Ferror (demo_env_with vrc [] hdr) 3"
    "\<not> rpmtsSetKeyring (demo_env_with vrc [] hdr) (keyring (demo_world [2])) < 0"
    "rpmcliVerifySignatures (demo_env_with vrc [] hdr) (keyring (demo_world [2])) ''pkg.rpm''
       = (vrc, [])"
    for vrc hdr
    by (simp_all add: demo_env_with_def demo_env_def)
  have reach: "(0::int) = 0
      \<and> rpmReadPackageFile (demo_env_with 0 [] hdr) (keyring (demo_world [2])) 3 ''pkg.rpm''
          = (RPMRC_OK, hdr)
      \<and> hdr = headerConvert (demo_env_with 0 [] hdr) hdr"
    for hdr
    by (simp add: demo_env_with_def demo_env_def RPMRC_OK_def)
  have body: "(\<forall>td. headerGet (demo_env_with 0 [] hdr) hdr RPMTAG_RSAHEADER = (1, td)
                       \<or> (fst (headerGet (demo_env_with 0 [] hdr) hdr RPMTAG_RSAHEADER) \<noteq> 1
                          \<and> headerGet (demo_env_with 0 [] hdr) hdr RPMTAG_DSAHEADER = (1, td))
                  \<longrightarrow> dnf_keyring_check_untrusted_file (demo_env_with 0 [] hdr) ''pkg.rpm''
                          (demo_world [2]) =
                        (case pgpPrtPkts (demo_env_with 0 [] hdr) td of
                           (rc, dig) \<Rightarrow>
                             if rc \<noteq> RPMRC_OK then
                               ((False,
                                 Some (g_set_error DNF_ERROR_FILE_INVALID
                                         (''failed to parse digest header for '' @ ''pkg.rpm''))),
                                (demo_world [2])\<lparr>rpmlog_callback := None\<rparr>)
                             else if rpmKeyringLookup (demo_env_with 0 [] hdr)
                                       (keyring (demo_world [2])) dig \<noteq> RPMRC_OK then
                               ((False,
                                 Some (g_set_error DNF_ERROR_GPG_SIGNATURE_INVALID
                                         (''failed to lookup digest in keyring for ''
                                            @ ''pkg.rpm''))),
                                (demo_world [2])\<lparr>rpmlog_callback := None\<rparr>)
                             else
                               ((True, None),
                                (emit (Ev_debug (''pkg.rpm'' @ '' has been verified as trusted''))
                                   (demo_world [2]))\<lparr>rpmlog_callback := None\<rparr>)))
               \<and> (fst (headerGet (demo_env_with 0 [] hdr) hdr RPMTAG_RSAHEADER) = 1
                  \<longrightarrow> get_signature_header (demo_env_with 0 [] hdr) hdr
                        = headerGet (demo_env_with 0 [] hdr) hdr RPMTAG_RSAHEADER
                      \<and> (\<forall>g. g hdr RPMTAG_RSAHEADER
                                = headerGet (demo_env_with 0 [] hdr) hdr RPMTAG_RSAHEADER
                             \<longrightarrow> dnf_keyring_check_untrusted_file
                                   ((demo_env_with 0 [] hdr)\<lparr>headerGet := g\<rparr>) ''pkg.rpm''
                                   (demo_world [2])
                                   = dnf_keyring_check_untrusted_file (demo_env_with 0 [] hdr)
                                       ''pkg.rpm'' (demo_world [2])))
               \<and> (fst (headerGet (demo_env_with 0 [] hdr) hdr RPMTAG_RSAHEADER) \<noteq> 1
                  \<longrightarrow> get_signature_header (demo_env_with 0 [] hdr) hdr
                        = headerGet (demo_env_with 0 [] hdr) hdr RPMTAG_DSAHEADER)
               \<and> (fst (headerGet (demo_env_with 0 [] hdr) hdr RPMTAG_RSAHEADER) \<noteq> 1
                    \<and> fst (headerGet (demo_env_with 0 [] hdr) hdr RPMTAG_DSAHEADER) \<noteq> 1
                  \<longrightarrow> dnf_keyring_check_untrusted_file (demo_env_with 0 [] hdr) ''pkg.rpm''
                          (demo_world [2]) =
                        ((False,
                          Some (g_set_error DNF_ERROR_GPG_SIGNATURE_INVALID
                                  (''package not signed: ''
                                     @ g_path_get_basename (demo_env_with 0 [] hdr) ''pkg.rpm''))),
                         (demo_world [2])\<lparr>rpmlog_callback := None\<rparr>))"
    for hdr
    using check_untrusted_file_signature_header_selection [OF h [of 0 hdr], THEN conjunct2, THEN spec [of _ hdr], THEN spec [of _ hdr],
              THEN mp, OF reach [of hdr]] .
  have get: "headerGet (demo_env_with vrc [] hdr) (a, b) RPMTAG_RSAHEADER
               = (case a of None \<Rightarrow> (0, []) | Some d \<Rightarrow> (1, d))"
    "headerGet (demo_env_with vrc [] hdr) (a, b) RPMTAG_DSAHEADER
               = (case b of None \<Rightarrow> (0, []) | Some d \<Rightarrow> (1, d))"
    for vrc hdr a b
    by (simp_all add: demo_env_with_def demo_env_def)
  have lib: "pgpPrtPkts (demo_env_with vrc [] hdr) [k] = (0, k)"
    "rpmKeyringLookup (demo_env_with vrc [] hdr) kr d = (if d \<in> set kr then 0 else 4)"
    "g_path_get_basename (demo_env_with vrc [] hdr) ''pkg.rpm'' = ''pkg.rpm''"
    for vrc hdr k kr d
    by (simp_all add: demo_env_with_def demo_env_def)
  have dsa_only: "dnf_keyring_check_untrusted_file (demo_env_with 0 [] (None, Some [2])) ''pkg.rpm''
        (demo_world [2])
     = ((True, None), emit (Ev_debug ''pkg.rpm has been verified as trusted'') (demo_world [2]))"
    using body [of "(None, Some [2])", THEN conjunct1, THEN spec [of _ "[2]"]]
    by (simp add: get lib RPMRC_OK_def demo_world_def emit_def)
  have rsa_first: "dnf_keyring_check_untrusted_file (demo_env_with 0 [] (Some [2], Some [3])) ''pkg.rpm''
        (demo_world [2])
     = ((True, None), emit (Ev_debug ''pkg.rpm has been verified as trusted'') (demo_world [2]))"
    using body [of "(Some [2], Some [3])", THEN conjunct1, THEN spec [of _ "[2]"]]
    by (simp add: get lib RPMRC_OK_def demo_world_def emit_def)
  have rsa_untrusted: "dnf_keyring_check_untrusted_file (demo_env_with 0 [] (Some [3], Some [2]))
        ''pkg.rpm'' (demo_world [2])
     = ((False, Some (g_set_error DNF_ERROR_GPG_SIGNATURE_INVALID
                        ''failed to lookup digest in keyring for pkg.rpm'')),
        demo_world [2])"
    using body [of "(Some [3], Some [2])", THEN conjunct1, THEN spec [of _ "[3]"]]
    by (simp add: get lib RPMRC_OK_def demo_world_def emit_def)
  let ?g = "\<lambda>(h :: bytes option \<times> bytes option) t.
              case t of RPMTAG_RSAHEADER \<Rightarrow> (1::int, [2::nat]) | RPMTAG_DSAHEADER \<Rightarrow> (0, [])"
  have indep: "dnf_keyring_check_untrusted_file
        ((demo_env_with 0 [] (Some [2], Some [3]))\<lparr>headerGet := ?g\<rparr>) ''pkg.rpm'' (demo_world [2])
      = dnf_keyring_check_untrusted_file (demo_env_with 0 [] (Some [2], Some [3]))
          ''pkg.rpm'' (demo_world [2])"
    using body [of "(Some [2], Some [3])", THEN conjunct2, THEN conjunct1, THEN mp,
                THEN conjunct2, THEN spec [of _ ?g]]
    by (simp add: get)
  have sel_rsa: "get_signature_header (demo_env_with 0 [] (Some [2], Some [3])) (Some [2], Some [3])
                   = (1, [2])"
    using body [of "(Some [2], Some [3])", THEN conjunct2, THEN conjunct1]
    by (simp add: get)
  have sel_dsa: "get_signature_header (demo_env_with 0 [] (None, Some [2])) (None, Some [2])
                   = (1, [2])"
    using body [of "(None, Some [2])", THEN conjunct2, THEN conjunct2, THEN conjunct1]
    by (simp add: get)
  have unsigned: "dnf_keyring_check_untrusted_file (demo_env_with 0 [] (None, None))
        ''pkg.rpm'' (demo_world [2])
      = ((False, Some (g_set_error DNF_ERROR_GPG_SIGNATURE_INVALID ''package not signed: pkg.rpm'')),
         demo_world [2])"
    using body [of "(None, None)", THEN conjunct2, THEN conjunct2, THEN conjunct2]
    by (simp add: get lib demo_world_def)
  have failed: "dnf_keyring_check_untrusted_file (demo_env_with 1 [] (None, None))
        ''pkg.rpm'' (demo_world [2])
      = ((False,
          Some (g_set_error DNF_ERROR_GPG_SIGNATURE_INVALID
                  (''pkg.rpm could not be verified.'' @ [newline] @ ''UNKNOWN ERROR''))),
         demo_world [2])"
    using check_untrusted_file_signature_header_selection [OF h [of 1 "(None, None)"], THEN conjunct1]
    by (simp add: demo_world_def)
  show ?thesis
    by (intro conjI dsa_only rsa_first rsa_untrusted indep sel_rsa sel_dsa unsigned failed)
qed

text \<open>
  Claim C2 as stated fails: a package with neither signature field, whose header would
  be read without error, on which the chain check fails. The call returns the step-4
  error, not "package not signed".
\<close>

theorem check_untrusted_file_signature_header_selection_counterexample:
  "fst (rpmReadPackageFile (demo_env_with 1 [] (None, None)) [1] 3 ''pkg.rpm'') = RPMRC_OK
   \<and> fst (headerGet (demo_env_with 1 [] (None, None)) (None, None) RPMTAG_RSAHEADER) = 0
   \<and> fst (headerGet (demo_env_with 1 [] (None, None)) (None, None) RPMTAG_DSAHEADER) = 0
   \<and> fst (rpmcliVerifySignatures (demo_env_with 1 [] (None, None)) [1] ''pkg.rpm'') = 1
   \<and> fst (dnf_keyring_check_untrusted_file (demo_env_with 1 [] (None, None))
             ''pkg.rpm'' (demo_world [1]))
     = (False,
        Some (g_set_error DNF_ERROR_GPG_SIGNATURE_INVALID
                (''pkg.rpm could not be verified.'' @ [newline] @ ''UNKNOWN ERROR'')))
   \<and> fst (dnf_keyring_check_untrusted_file (demo_env_with 1 [] (None, None))
             ''pkg.rpm'' (demo_world [1]))
     \<noteq> (False,
         Some (g_set_error DNF_ERROR_GPG_SIGNATURE_INVALID
                 (''package not signed: ''
                    @ g_path_get_basename (demo_env_with 1 [] (None, None)) ''pkg.rpm'')))"
  by (simp add: dnf_keyring_check_untrusted_file_def demo_env_with_def demo_env_def
        demo_world_def out_def Let_def rpmlog_dispatch_def g_set_error_def RPMRC_OK_def)





text \<open>
  Claim C9. Whatever the library calls report and whatever callback was installed before
  the call, when \<^verbatim>\<open>dnf_keyring_check_untrusted_file\<close> returns no rpmlog callback is
  installed: every path, the ones that leave before line 289 included, goes through
  \<^verbatim>\<open>rpmlogSetCallback(NULL, NULL)\<close> at the label \<^verbatim>\<open>out\<close>.
\<close>

theorem check_untrusted_file_resets_log_callback:
  "rpmlog_callback (snd (dnf_keyring_check_untrusted_file E filename w)) = None"
  by (simp add: dnf_keyring_check_untrusted_file_def out_def Let_def
           split: option.split prod.split)

end
